theory Spec2Isabelle
  imports Complex_Main "HOL-Library.Sublist"
begin

section \<open>Numbers, strings and the keypoint data model\<close>

text \<open>
  JavaScript numbers are modelled as reals. A value of type \<open>real option\<close> is a number
  that may be non-finite: \<open>None\<close> stands for the doubles \<open>Infinity\<close>, \<open>-Infinity\<close> and
  \<open>NaN\<close>, which in this program only arise from a division by zero. Every comparison
  with a non-finite operand that the program performs (\<open>distance < 15\<close>) is false for
  all three of them, so they need not be told apart.
\<close>

definition js_div :: "real \<Rightarrow> real \<Rightarrow> real option" where
  \<comment> \<open>\<open>a / b\<close> for finite \<open>a\<close>, \<open>b\<close>: \<open>\<plusminus>Infinity\<close> or \<open>NaN\<close> when \<open>b\<close> is zero\<close>
  "js_div a b = (if b = 0 then None else Some (a / b))"

definition js_mul :: "real \<Rightarrow> real option \<Rightarrow> real option" where
  \<comment> \<open>\<open>a * s\<close> for finite \<open>a\<close>: non-finite as soon as \<open>s\<close> is (\<open>0 * Infinity\<close> is \<open>NaN\<close>)\<close>
  "js_mul a s = map_option (\<lambda>r. a * r) s"

definition js_lt :: "real option \<Rightarrow> real \<Rightarrow> bool" where
  \<comment> \<open>\<open>a < b\<close> for finite \<open>b\<close>: false when \<open>a\<close> is \<open>Infinity\<close> or \<open>NaN\<close>\<close>
  "js_lt a b = (case a of None \<Rightarrow> False | Some r \<Rightarrow> r < b)"

definition Math_round :: "real \<Rightarrow> int" where
  \<comment> \<open>\<open>Math.round\<close>: the nearest integer, a tie going up\<close>
  "Math_round r = \<lfloor>r + 1 / 2\<rfloor>"

definition Math_atan2 :: "real \<Rightarrow> real \<Rightarrow> real" where
  \<comment> \<open>\<open>Math.atan2(y, x)\<close>: the angle of the point \<open>(x, y)\<close>, in \<open>(-\<pi>, \<pi>]\<close>, 0 at the origin\<close>
  "Math_atan2 b a =
     (if 0 < a then arctan (b / a)
      else if a < 0 then (if 0 \<le> b then arctan (b / a) + pi else arctan (b / a) - pi)
      else if 0 < b then pi / 2
      else if b < 0 then - (pi / 2)
      else 0)"

definition str_includes :: "string \<Rightarrow> string \<Rightarrow> bool" where
  \<comment> \<open>\<open>s.includes(t)\<close>: \<open>t\<close> occurs in \<open>s\<close> as a run of consecutive characters\<close>
  "str_includes s t = sublist t s"

text \<open>
  A keypoint of the pose detector. \<open>score\<close> is optional in the detector's type, hence an
  option. The name is a string; the empty string is the falsy name, and the program
  treats an absent name the same way everywhere (\<open>kp.name\<close> as a condition,
  \<open>name || ''\<close>, \<open>name || 'Unknown Joint'\<close>).
\<close>

record keypoint =
  kp_name :: string
  kp_x :: real
  kp_y :: real
  kp_score :: "real option"

record pose =
  keypoints :: "keypoint list option"
  pose_score :: "real option"

text \<open>What one call of \<open>detector.estimatePoses\<close> does: it throws a value, which is
  an \<open>Error\<close> object or something else, or returns a (possibly null) array of (possibly
  null) poses.\<close>

datatype thrown = ErrorObject | OtherValue

datatype estimation = Throws thrown | Returns "pose option list option"

text \<open>The video element, as far as the program reads it: \<open>rectWidth\<close> and \<open>rectHeight\<close>
  are the width and height of \<open>getBoundingClientRect()\<close>.\<close>

record video =
  currentTime :: real
  paused :: bool
  videoWidth :: nat
  videoHeight :: nat
  rectWidth :: real
  rectHeight :: real

text \<open>A point in display space.\<close>

record mapped =
  mx :: "real option"
  my :: "real option"

definition truthy :: "real option \<Rightarrow> bool" where
  \<comment> \<open>a score used as a condition: neither undefined nor zero\<close>
  "truthy sc = (case sc of None \<Rightarrow> False | Some r \<Rightarrow> r \<noteq> 0)"

definition score_gt :: "real option \<Rightarrow> real \<Rightarrow> bool" where
  \<comment> \<open>\<open>score > t\<close>, false for an undefined score\<close>
  "score_gt sc t = (case sc of None \<Rightarrow> False | Some r \<Rightarrow> t < r)"

definition score_lt :: "real option \<Rightarrow> real \<Rightarrow> bool" where
  \<comment> \<open>\<open>score < t\<close>, false for an undefined score\<close>
  "score_lt sc t = (case sc of None \<Rightarrow> False | Some r \<Rightarrow> r < t)"

section \<open>Joint angles\<close>

type_synonym keypointMap = "string \<rightharpoonup> keypoint"

definition addKeypoint :: "keypointMap \<Rightarrow> keypoint \<Rightarrow> keypointMap" where
  \<comment> \<open>the reducer \<open>(map, kp) => { if (kp.name) map[kp.name] = kp; return map }\<close>\<close>
  "addKeypoint m kp = (if kp_name kp \<noteq> [] then m(kp_name kp \<mapsto> kp) else m)"

definition buildKeypointMap :: "keypoint list \<Rightarrow> keypointMap" where
  \<comment> \<open>\<open>keypoints.reduce(..., {})\<close>: a later keypoint of the same name replaces an earlier\<close>
  "buildKeypointMap kps = foldl addKeypoint Map.empty kps"

definition calculateJointAngle :: "keypointMap \<Rightarrow> string \<Rightarrow> int option" where
  "calculateJointAngle keypointMap jointName =
     (if str_includes jointName ''elbow'' then
        (let side = (if str_includes jointName ''left'' then ''left'' else ''right'') in
         case (keypointMap (side @ ''_shoulder''), keypointMap (side @ ''_elbow''),
               keypointMap (side @ ''_wrist'')) of
           (Some shoulder, Some elbow, Some wrist) \<Rightarrow>
             (let angle = Math_atan2 (kp_y wrist - kp_y elbow) (kp_x wrist - kp_x elbow) -
                          Math_atan2 (kp_y shoulder - kp_y elbow) (kp_x shoulder - kp_x elbow)
              in Some \<bar>Math_round (angle * (180 / pi))\<bar>)
         | _ \<Rightarrow> None)
      else if str_includes jointName ''knee'' then
        (let side = (if str_includes jointName ''left'' then ''left'' else ''right'') in
         case (keypointMap (side @ ''_hip''), keypointMap (side @ ''_knee''),
               keypointMap (side @ ''_ankle'')) of
           (Some hip, Some knee, Some ankle) \<Rightarrow>
             (let angle = Math_atan2 (kp_y ankle - kp_y knee) (kp_x ankle - kp_x knee) -
                          Math_atan2 (kp_y hip - kp_y knee) (kp_x hip - kp_x knee)
              in Some \<bar>Math_round (angle * (180 / pi))\<bar>)
         | _ \<Rightarrow> None)
      else None)"

section \<open>Coordinate mapping\<close>

definition mapToDisplaySpace :: "video option \<Rightarrow> real \<Rightarrow> real \<Rightarrow> mapped" where
  "mapToDisplaySpace videoRef a b =
     (case videoRef of
        None \<Rightarrow> \<lparr>mx = Some a, my = Some b\<rparr>
      | Some video \<Rightarrow>
          (let scaleX = js_div (rectWidth video) (real (videoWidth video));
               scaleY = js_div (rectHeight video) (real (videoHeight video))
           in \<lparr>mx = js_mul a scaleX, my = js_mul b scaleY\<rparr>))"

section \<open>The drawing surface\<close>

text \<open>
  The overlay canvas is modelled by the list of primitives drawn on it since it was last
  cleared, in drawing order. A non-finite coordinate is kept as it is passed to the
  canvas call.
\<close>

datatype prim =
    DimLayer real real
      \<comment> \<open>\<open>fillStyle = 'rgba(0, 0, 0, 0.7)'; fillRect(0, 0, w, h)\<close>\<close>
  | SpotlightHole "real option" "real option" "real option" "real option"
      \<comment> \<open>a rectangle \<open>x y w h\<close> filled under \<open>destination-out\<close>, then \<open>source-over\<close> restored\<close>
  | BoneLine mapped mapped
      \<comment> \<open>\<open>beginPath; moveTo; lineTo; stroke\<close>, white, 2px\<close>
  | JointMarker mapped string
      \<comment> \<open>a filled circle of radius 6 in the given colour, white 2px outline\<close>
  | TooltipBox mapped string "int option"
      \<comment> \<open>\<open>drawJointTooltip\<close> at a joint, with its name and angle\<close>

fun is_dimming :: "prim \<Rightarrow> bool" where
  "is_dimming (DimLayer w h) = True"
| "is_dimming (SpotlightHole a b w h) = True"
| "is_dimming p = False"

fun is_bone :: "prim \<Rightarrow> bool" where
  "is_bone (BoneLine p q) = True"
| "is_bone p = False"

fun is_marker :: "prim \<Rightarrow> bool" where
  "is_marker (JointMarker p c) = True"
| "is_marker p = False"

fun is_tooltip :: "prim \<Rightarrow> bool" where
  "is_tooltip (TooltipBox p n a) = True"
| "is_tooltip p = False"

record canvas =
  cv_width :: real
  cv_height :: real
  has_ctx :: bool
  content :: "prim list"

record clicked =
  cj_name :: string
  cj_angle :: "int option"
  cj_x :: "real option"
  cj_y :: "real option"

text \<open>
  The component state. The two variants of the player (the click variant of
  \<open>VideoPlayer.tsx\<close> and the hover variant) share most of it; \<open>currentKeypoints\<close> and
  \<open>clickedJoint\<close> belong to the click variant, \<open>isPlaying\<close> and the mouse position to the
  hover variant. \<open>canvasRef\<close> is the overlay canvas (\<open>skeletonCanvasRef\<close> in the click
  variant), \<open>detector\<close> says whether the detector has been created, and \<open>console\<close>
  collects what is logged.
\<close>

record state =
  detector :: bool
  videoRef :: "video option"
  canvasRef :: "canvas option"
  isPaused :: bool
  isPlaying :: bool
  isVideoReady :: bool
  showDimming :: bool
  dim_width :: real
  dim_height :: real
  currentKeypoints :: "keypoint list option"
  clickedJoint :: "clicked option"
  mouse_x :: real
  mouse_y :: real
  console :: "string list"

definition getJointColor :: "string \<Rightarrow> string" where
  "getJointColor jointName =
     (if jointName = [] then ''#FFFFFF''
      else if str_includes jointName ''nose'' \<or> str_includes jointName ''eye''
              \<or> str_includes jointName ''ear'' then ''#FF0000''
      else if str_includes jointName ''shoulder'' \<or> str_includes jointName ''hip''
        then ''#00FF00''
      else if str_includes jointName ''elbow'' \<or> str_includes jointName ''wrist''
        then ''#0000FF''
      else if str_includes jointName ''knee'' \<or> str_includes jointName ''ankle''
        then ''#FFA500''
      else ''#FFFFFF'')"

definition connections :: "(string \<times> string) list" where
  "connections =
     [(''nose'', ''left_eye''), (''nose'', ''right_eye''),
      (''left_eye'', ''left_ear''), (''right_eye'', ''right_ear''),
      (''left_shoulder'', ''right_shoulder''),
      (''left_shoulder'', ''left_elbow''),
      (''right_shoulder'', ''right_elbow''),
      (''left_elbow'', ''left_wrist''),
      (''right_elbow'', ''right_wrist''),
      (''left_shoulder'', ''left_hip''),
      (''right_shoulder'', ''right_hip''),
      (''left_hip'', ''right_hip''),
      (''left_hip'', ''left_knee''),
      (''right_hip'', ''right_knee''),
      (''left_knee'', ''left_ankle''),
      (''right_knee'', ''right_ankle'')]"

definition drawBone ::
  "video option \<Rightarrow> keypointMap \<Rightarrow> prim list \<Rightarrow> string \<times> string \<Rightarrow> prim list" where
  \<comment> \<open>the body of \<open>connections.forEach\<close>\<close>
  "drawBone vref keypointMap ctx c =
     (case (keypointMap (fst c), keypointMap (snd c)) of
        (Some startPoint, Some endPoint) \<Rightarrow>
          if truthy (kp_score startPoint) \<and> truthy (kp_score endPoint)
             \<and> score_gt (kp_score startPoint) 0.3 \<and> score_gt (kp_score endPoint) 0.3
          then ctx @ [BoneLine (mapToDisplaySpace vref (kp_x startPoint) (kp_y startPoint))
                               (mapToDisplaySpace vref (kp_x endPoint) (kp_y endPoint))]
          else ctx
      | _ \<Rightarrow> ctx)"

definition drawSkeleton :: "video option \<Rightarrow> prim list \<Rightarrow> keypoint list \<Rightarrow> prim list" where
  "drawSkeleton vref ctx kps = foldl (drawBone vref (buildKeypointMap kps)) ctx connections"

definition drawMarker :: "video option \<Rightarrow> prim list \<Rightarrow> keypoint \<Rightarrow> prim list" where
  \<comment> \<open>the body of \<open>keypointsWithName.forEach\<close> in the click variant\<close>
  "drawMarker vref ctx keypoint =
     (if truthy (kp_score keypoint) \<and> score_gt (kp_score keypoint) 0.3
      then ctx @ [JointMarker (mapToDisplaySpace vref (kp_x keypoint) (kp_y keypoint))
                              (getJointColor (kp_name keypoint))]
      else ctx)"

definition Math_min :: "real list \<Rightarrow> real" where
  \<comment> \<open>\<open>Math.min(...xs)\<close> of a non-empty list; both callers have returned on an empty one\<close>
  "Math_min xs = Min (set xs)"

definition Math_max :: "real list \<Rightarrow> real" where
  \<comment> \<open>\<open>Math.max(...xs)\<close> of a non-empty list\<close>
  "Math_max xs = Max (set xs)"

definition js_min :: "real option list \<Rightarrow> real option" where
  \<comment> \<open>\<open>Math.min\<close> of mapped coordinates: they share one scale factor, so they are
      all finite or all non-finite, and then so is the minimum\<close>
  "js_min xs = map_option Math_min (those xs)"

definition js_max :: "real option list \<Rightarrow> real option" where
  "js_max xs = map_option Math_max (those xs)"

definition js_sub :: "real option \<Rightarrow> real option \<Rightarrow> real option" where
  \<comment> \<open>\<open>a - b\<close>: non-finite when an operand is\<close>
  "js_sub a b = (case (a, b) of (Some u, Some v) \<Rightarrow> Some (u - v) | _ \<Rightarrow> None)"

definition js_add :: "real option \<Rightarrow> real option \<Rightarrow> real option" where
  "js_add a b = (case (a, b) of (Some u, Some v) \<Rightarrow> Some (u + v) | _ \<Rightarrow> None)"

definition confident :: "keypoint \<Rightarrow> bool" where
  \<comment> \<open>\<open>kp.score && kp.score > 0.3\<close>\<close>
  "confident kp = (truthy (kp_score kp) \<and> score_gt (kp_score kp) 0.3)"

definition applyDimmingEffect ::
  "video option \<Rightarrow> real \<Rightarrow> real \<Rightarrow> prim list \<Rightarrow> keypoint list \<Rightarrow> prim list" where
  \<comment> \<open>click variant; \<open>w\<close>, \<open>h\<close> are \<open>dimensions.width\<close> and \<open>dimensions.height\<close>\<close>
  "applyDimmingEffect vref w h ctx kps =
     (let validKeypoints = filter confident kps in
      if length validKeypoints = 0 then ctx
      else
        let padding = 50;
            mappedPoints = map (\<lambda>kp. mapToDisplaySpace vref (kp_x kp) (kp_y kp)) validKeypoints;
            xs = map mx mappedPoints;
            ys = map my mappedPoints;
            minX = js_min xs;
            maxX = js_max xs;
            minY = js_min ys;
            maxY = js_max ys
        in ctx @ [DimLayer w h,
                  SpotlightHole (js_sub minX (Some padding)) (js_sub minY (Some padding))
                    (js_add (js_sub maxX minX) (Some (2 * padding)))
                    (js_add (js_sub maxY minY) (Some (2 * padding)))])"

section \<open>The detection cycle, click variant\<close>

text \<open>
  The \<open>try\<close> block of a cycle is a function of its own: it ends with the state it leaves
  (\<open>Inr\<close>), or with the value thrown and the state reached when it was thrown (\<open>Inl\<close>).
  The cycle around it holds the \<open>catch\<close>.
\<close>

definition tryBlock :: "estimation \<Rightarrow> state \<Rightarrow> canvas \<Rightarrow> thrown \<times> state + state" where
  \<comment> \<open>the \<open>try\<close> block of \<open>detectAndDraw\<close>, entered with the canvas sized and cleared;
      \<open>est\<close> is what \<open>estimatePoses\<close> does\<close>
  "tryBlock est s cleared =
     (case est of
        Throws e \<Rightarrow> Inl (e, s\<lparr>canvasRef := Some cleared\<rparr>)
      | Returns None \<Rightarrow> Inr (s\<lparr>canvasRef := Some cleared, currentKeypoints := None\<rparr>)
      | Returns (Some []) \<Rightarrow> Inr (s\<lparr>canvasRef := Some cleared, currentKeypoints := None\<rparr>)
      | Returns (Some (None # rest)) \<Rightarrow>
          Inr (s\<lparr>canvasRef := Some cleared, currentKeypoints := None\<rparr>)
      | Returns (Some (Some pose0 # rest)) \<Rightarrow>
          (case keypoints pose0 of
             None \<Rightarrow> Inr (s\<lparr>canvasRef := Some cleared, currentKeypoints := None\<rparr>)
           | Some keypointsWithName \<Rightarrow>
               let ctx0 = content cleared;
                   ctx1 = (if showDimming s
                           then applyDimmingEffect (videoRef s) (dim_width s)
                                  (dim_height s) ctx0 keypointsWithName
                           else ctx0);
                   ctx2 = drawSkeleton (videoRef s) ctx1 keypointsWithName;
                   ctx3 = foldl (drawMarker (videoRef s)) ctx2 keypointsWithName
               in Inr (s\<lparr>canvasRef := Some (cleared\<lparr>content := ctx3\<rparr>),
                        currentKeypoints := Some keypointsWithName\<rparr>)))"

definition detectAndDraw :: "estimation \<Rightarrow> state \<Rightarrow> state" where
  \<comment> \<open>\<open>est\<close> is what \<open>estimatePoses\<close> does if the cycle calls it\<close>
  "detectAndDraw est s =
     (case (videoRef s, canvasRef s) of
        (Some video, Some skeletonCanvas) \<Rightarrow>
          if \<not> detector s \<or> \<not> isVideoReady s then s
          else
            let cleared = skeletonCanvas\<lparr>cv_width := rectWidth video,
                            cv_height := rectHeight video, content := []\<rparr>
            in if \<not> has_ctx skeletonCanvas then s\<lparr>canvasRef := Some cleared\<rparr>
               else if paused video then
                 (case tryBlock est s cleared of
                    Inr s' \<Rightarrow> s'
                  | Inl (e, s') \<Rightarrow>
                      s'\<lparr>console := console s' @ [''Error in pose detection:'']\<rparr>)
               else s\<lparr>canvasRef := Some cleared\<rparr>
      | _ \<Rightarrow> s)"

section \<open>Hit testing, click variant\<close>

definition distanceTo :: "real \<Rightarrow> real \<Rightarrow> mapped \<Rightarrow> real option" where
  \<comment> \<open>\<open>Math.sqrt(Math.pow(clickX - mapped.x, 2) + Math.pow(clickY - mapped.y, 2))\<close>\<close>
  "distanceTo clickX clickY m =
     (case (mx m, my m) of
        (Some a, Some b) \<Rightarrow> Some (sqrt ((clickX - a)\<^sup>2 + (clickY - b)\<^sup>2))
      | _ \<Rightarrow> None)"

definition jointHit :: "video option \<Rightarrow> real \<Rightarrow> real \<Rightarrow> keypoint \<Rightarrow> bool" where
  \<comment> \<open>the predicate given to \<open>currentKeypoints.find\<close>\<close>
  "jointHit vref clickX clickY keypoint =
     (if \<not> truthy (kp_score keypoint) \<or> score_lt (kp_score keypoint) 0.3 then False
      else
        let m = mapToDisplaySpace vref (kp_x keypoint) (kp_y keypoint);
            distance = distanceTo clickX clickY m
        in js_lt distance 15)"

definition hitScoreCheck :: "keypoint \<Rightarrow> bool" where
  \<comment> \<open>what the score test of the hit test (\<open>!keypoint.score || keypoint.score < 0.3\<close>
      gives \<open>false\<close>) lets through: a score that is present and not below 0.3\<close>
  "hitScoreCheck k = (case kp_score k of None \<Rightarrow> False | Some r \<Rightarrow> 0.3 \<le> r)"

definition degrees :: "real \<Rightarrow> real" where
  "degrees r = r * 180 / pi"

definition sideOf :: "string \<Rightarrow> string" where
  \<comment> \<open>the side is \<open>left\<close> if the name contains \<open>left\<close>, else \<open>right\<close>\<close>
  "sideOf jointName = (if str_includes jointName ''left'' then ''left'' else ''right'')"

definition angleSpec :: "keypoint \<Rightarrow> keypoint \<Rightarrow> keypoint \<Rightarrow> int" where
  \<comment> \<open>the absolute value of \<open>round(degrees(atan2(c - b) - atan2(a - b)))\<close>, for the
      landmarks \<open>a\<close>, \<open>b\<close>, \<open>c\<close> with the joint at \<open>b\<close>\<close>
  "angleSpec a b c =
     \<bar>round (degrees (Math_atan2 (kp_y c - kp_y b) (kp_x c - kp_x b) -
                      Math_atan2 (kp_y a - kp_y b) (kp_x a - kp_x b)))\<bar>"

definition inverseScale :: "video \<Rightarrow> mapped \<Rightarrow> mapped" where
  \<comment> \<open>the inverse scaling of the round-trip property: multiplication by \<open>W / W'\<close> and
      \<open>H / H'\<close>, the factors by which the export scales the overlay back to native size\<close>
  "inverseScale video m =
     \<lparr>mx = Option.bind (mx m)
             (\<lambda>r. js_mul r (js_div (real (videoWidth video)) (rectWidth video))),
      my = Option.bind (my m)
             (\<lambda>r. js_mul r (js_div (real (videoHeight video)) (rectHeight video)))\<rparr>"

definition handleCanvasClick :: "real \<Rightarrow> real \<Rightarrow> state \<Rightarrow> state" where
  \<comment> \<open>\<open>clickX\<close>, \<open>clickY\<close>: the pointer position relative to the canvas\<close>
  "handleCanvasClick clickX clickY s =
     (case (videoRef s, currentKeypoints s, canvasRef s) of
        (Some video, Some kps, Some skeletonCanvas) \<Rightarrow>
          if \<not> paused video then s
          else
            (case find (jointHit (videoRef s) clickX clickY) kps of
               Some jointClicked \<Rightarrow>
                 let m = mapToDisplaySpace (videoRef s) (kp_x jointClicked) (kp_y jointClicked);
                     keypointMap = buildKeypointMap kps;
                     angle = calculateJointAngle keypointMap (kp_name jointClicked)
                 in s\<lparr>clickedJoint := Some
                        \<lparr>cj_name = (if kp_name jointClicked = [] then ''Unknown Joint''
                                    else kp_name jointClicked),
                         cj_angle = angle, cj_x = mx m, cj_y = my m\<rparr>\<rparr>
             | None \<Rightarrow> s\<lparr>clickedJoint := None\<rparr>)
      | _ \<Rightarrow> s)"

section \<open>The detection cycle, hover variant\<close>

record boundingBox =
  bb_x :: real
  bb_y :: real
  bb_width :: real
  bb_height :: real

definition calculateBoundingBox :: "keypoint list \<Rightarrow> boundingBox option" where
  "calculateBoundingBox kps =
     (let validKeypoints = filter confident kps in
      if length validKeypoints = 0 then None
      else
        let xs = map kp_x validKeypoints;
            ys = map kp_y validKeypoints
        in Some \<lparr>bb_x = Math_min xs, bb_y = Math_min ys,
                 bb_width = Math_max xs - Math_min xs,
                 bb_height = Math_max ys - Math_min ys\<rparr>)"

definition applyDimmingEffect_hover ::
  "video option \<Rightarrow> real \<Rightarrow> real \<Rightarrow> prim list \<Rightarrow> boundingBox \<Rightarrow> prim list" where
  "applyDimmingEffect_hover vref w h ctx bb =
     (let topLeft = mapToDisplaySpace vref (bb_x bb) (bb_y bb);
          bottomRight = mapToDisplaySpace vref (bb_x bb + bb_width bb) (bb_y bb + bb_height bb);
          mapped_x = mx topLeft;
          mapped_y = my topLeft;
          mapped_width = js_sub (mx bottomRight) (mx topLeft);
          mapped_height = js_sub (my bottomRight) (my topLeft);
          padding = 50
      in ctx @ [DimLayer w h,
                SpotlightHole (js_sub mapped_x (Some padding)) (js_sub mapped_y (Some padding))
                  (js_add mapped_width (Some (padding * 2)))
                  (js_add mapped_height (Some (padding * 2)))])"

definition video_paused :: "video option \<Rightarrow> bool" where
  \<comment> \<open>\<open>videoRef.current?.paused\<close> as a condition\<close>
  "video_paused vref = (case vref of None \<Rightarrow> False | Some video \<Rightarrow> paused video)"

definition drawSkeleton_hover ::
  "video option \<Rightarrow> prim list \<Rightarrow> keypoint list \<Rightarrow> prim list" where
  \<comment> \<open>as \<open>drawSkeleton\<close>, but only when the video is paused\<close>
  "drawSkeleton_hover vref ctx kps =
     (if \<not> video_paused vref then ctx else drawSkeleton vref ctx kps)"

definition drawKeypoint_hover :: "state \<Rightarrow> keypointMap \<Rightarrow> prim list \<Rightarrow> keypoint \<Rightarrow> prim list" where
  \<comment> \<open>the body of \<open>keypointsWithName.forEach\<close> in the hover variant\<close>
  "drawKeypoint_hover s keypointMap ctx keypoint =
     (if \<not> truthy (kp_score keypoint) \<or> score_lt (kp_score keypoint) 0.3 then ctx
      else
        let m = mapToDisplaySpace (videoRef s) (kp_x keypoint) (kp_y keypoint) in
        if video_paused (videoRef s) then
          let ctx1 = ctx @ [JointMarker m (getJointColor (kp_name keypoint))];
              distance = distanceTo (mouse_x s) (mouse_y s) m
          in if js_lt distance 15
             then ctx1 @ [TooltipBox m (if kp_name keypoint = [] then ''Unknown Joint''
                                        else kp_name keypoint)
                            (calculateJointAngle keypointMap (kp_name keypoint))]
             else ctx1
        else ctx)"

definition drawPose_hover :: "state \<Rightarrow> prim list \<Rightarrow> pose option \<Rightarrow> prim list" where
  \<comment> \<open>the body of \<open>poses.forEach\<close>\<close>
  "drawPose_hover s ctx p =
     (case p of
        None \<Rightarrow> ctx
      | Some pose \<Rightarrow>
          if \<not> truthy (pose_score pose) \<or> score_lt (pose_score pose) 0.3 then ctx
          else
            (case keypoints pose of
               None \<Rightarrow> ctx
             | Some keypointsWithName \<Rightarrow>
                 if length keypointsWithName = 0 then ctx
                 else
                   let keypointMap = buildKeypointMap keypointsWithName;
                       ctx1 = drawSkeleton_hover (videoRef s) ctx keypointsWithName;
                       ctx2 = foldl (drawKeypoint_hover s keypointMap) ctx1 keypointsWithName
                   in if showDimming s then
                        (case calculateBoundingBox keypointsWithName of
                           None \<Rightarrow> ctx2
                         | Some boundingBox \<Rightarrow>
                             if bb_width boundingBox > 0 \<and> bb_height boundingBox > 0
                             then applyDimmingEffect_hover (videoRef s) (dim_width s)
                                    (dim_height s) ctx2 boundingBox
                             else ctx2)
                      else ctx2))"

definition tryBlock_hover ::
  "estimation \<Rightarrow> state \<Rightarrow> video \<Rightarrow> canvas \<Rightarrow> thrown \<times> state + state" where
  \<comment> \<open>the \<open>try\<close> block of the hover variant's \<open>detectAndDraw\<close>: it sizes and clears the
      canvas itself\<close>
  "tryBlock_hover est s video cv =
     (let cleared = cv\<lparr>cv_width := rectWidth video, cv_height := rectHeight video,
                      content := []\<rparr>
      in if \<not> has_ctx cv
         then Inr (s\<lparr>canvasRef := Some cleared,
                    console := console s @ [''Failed to get canvas context'']\<rparr>)
         else
           (case est of
              Throws e \<Rightarrow> Inl (e, s\<lparr>canvasRef := Some cleared\<rparr>)
            | Returns None \<Rightarrow>
                Inr (s\<lparr>canvasRef := Some cleared,
                       console := console s @ [''No valid poses detected'']\<rparr>)
            | Returns (Some []) \<Rightarrow>
                Inr (s\<lparr>canvasRef := Some cleared,
                       console := console s @ [''No valid poses detected'']\<rparr>)
            | Returns (Some (None # rest)) \<Rightarrow>
                Inr (s\<lparr>canvasRef := Some cleared,
                       console := console s @ [''No valid poses detected'']\<rparr>)
            | Returns (Some (Some pose0 # rest)) \<Rightarrow>
                (case keypoints pose0 of
                   None \<Rightarrow>
                     Inr (s\<lparr>canvasRef := Some cleared,
                            console := console s @ [''No valid poses detected'']\<rparr>)
                 | Some kps0 \<Rightarrow>
                     Inr (s\<lparr>canvasRef := Some (cleared\<lparr>content :=
                            foldl (drawPose_hover s) (content cleared)
                              (Some pose0 # rest)\<rparr>)\<rparr>))))"

definition detectAndDraw_hover :: "estimation \<Rightarrow> state \<Rightarrow> state" where
  \<comment> \<open>the \<open>catch\<close> logs the error, and its details when it is an \<open>Error\<close> object\<close>
  "detectAndDraw_hover est s =
     (case (videoRef s, canvasRef s) of
        (Some video, Some cv) \<Rightarrow>
          if \<not> detector s \<or> \<not> isVideoReady s
          then s\<lparr>console := console s @ [''Skipping detection, prerequisites not met:'']\<rparr>
          else if videoWidth video = 0 \<or> videoHeight video = 0
          then s\<lparr>console := console s @ [''Video dimensions not ready:'']\<rparr>
          else
            (case tryBlock_hover est s video cv of
               Inr s' \<Rightarrow> s'
             | Inl (e, s') \<Rightarrow>
                 s'\<lparr>console := console s' @ [''Error in pose detection:'']
                        @ (if e = ErrorObject then [''Error details:''] else [])\<rparr>)
      | _ \<Rightarrow> s\<lparr>console := console s @ [''Skipping detection, prerequisites not met:'']\<rparr>)"

section \<open>Automatic pauses\<close>

datatype effect = PauseCommand | SettleDelay nat | DetectionPass

definition pausePoints :: "real list" where
  "pausePoints = [6, 10]"

definition pausePoints_hover :: "real list" where
  "pausePoints_hover = [3, 7]"

definition handleTimeUpdate ::
  "real list \<Rightarrow> (state \<Rightarrow> state) \<Rightarrow> state \<Rightarrow> effect list \<times> state" where
  \<comment> \<open>the handler of \<open>timeupdate\<close>, the same in both variants but for the schedule and the
      \<open>detectAndDraw\<close> it calls; it returns what it did and the state it leaves\<close>
  "handleTimeUpdate points detect s =
     (case videoRef s of
        None \<Rightarrow> ([], s)
      | Some video \<Rightarrow>
          if currentTime video = 0 then ([], s)
          else
            let shouldPause = list_ex (\<lambda>point. \<bar>currentTime video - point\<bar> < 0.1) points
            in if shouldPause \<and> \<not> paused video
               then ([PauseCommand, SettleDelay 200, DetectionPass],
                     detect (s\<lparr>videoRef := Some (video\<lparr>paused := True\<rparr>), isPaused := True\<rparr>))
               else ([], s))"

section \<open>Definitions that follow the specification's wording\<close>

definition withinRadius :: "video option \<Rightarrow> real \<Rightarrow> real \<Rightarrow> keypoint \<Rightarrow> bool" where
  \<comment> \<open>the keypoint, mapped to display space, is at a Euclidean distance of less than 15
      from the pointer \<open>(px, py)\<close>\<close>
  "withinRadius vref px py k =
     (let m = mapToDisplaySpace vref (kp_x k) (kp_y k) in
      case (mx m, my m) of
        (Some a, Some b) \<Rightarrow> sqrt ((px - a)\<^sup>2 + (py - b)\<^sup>2) < 15
      | _ \<Rightarrow> False)"

definition jointDetail :: "video option \<Rightarrow> keypoint list \<Rightarrow> keypoint \<Rightarrow> clicked" where
  \<comment> \<open>the detail selected for a joint: its name, its angle, its display position\<close>
  "jointDetail vref kps k =
     \<lparr>cj_name = (if kp_name k = [] then ''Unknown Joint'' else kp_name k),
      cj_angle = calculateJointAngle (buildKeypointMap kps) (kp_name k),
      cj_x = mx (mapToDisplaySpace vref (kp_x k) (kp_y k)),
      cj_y = my (mapToDisplaySpace vref (kp_x k) (kp_y k))\<rparr>"

definition overlay :: "state \<Rightarrow> prim list" where
  \<comment> \<open>the primitives on the overlay canvas, in drawing order\<close>
  "overlay s = (case canvasRef s of None \<Rightarrow> [] | Some cv \<Rightarrow> content cv)"

definition emptyOrThrows :: "estimation \<Rightarrow> bool" where
  \<comment> \<open>the estimator throws, or returns an empty result: no poses, or a first pose
      without keypoints\<close>
  "emptyOrThrows est =
     (case est of
        Throws e \<Rightarrow> True
      | Returns None \<Rightarrow> True
      | Returns (Some []) \<Rightarrow> True
      | Returns (Some (None # rest)) \<Rightarrow> True
      | Returns (Some (Some pose0 # rest)) \<Rightarrow> keypoints pose0 = None)"

definition dimmingApplied :: "state \<Rightarrow> bool" where
  \<comment> \<open>the overlay holds a dimming layer or a spotlight hole\<close>
  "dimmingApplied s = list_ex is_dimming (overlay s)"

definition poseAccepted :: "pose \<Rightarrow> bool" where
  \<comment> \<open>the pose passes the score check of the hover variant\<close>
  "poseAccepted pose = (truthy (pose_score pose) \<and> \<not> score_lt (pose_score pose) 0.3)"

definition aboveThreshold :: "keypoint \<Rightarrow> bool" where
  \<comment> \<open>the score exceeds the confidence threshold: \<open>score > 0.3\<close>\<close>
  "aboveThreshold k = (case kp_score k of None \<Rightarrow> False | Some r \<Rightarrow> 0.3 < r)"


definition markerOf :: "video option \<Rightarrow> keypoint \<Rightarrow> prim" where
  \<comment> \<open>the marker of a keypoint\<close>
  "markerOf vref k =
     JointMarker (mapToDisplaySpace vref (kp_x k) (kp_y k)) (getJointColor (kp_name k))"

definition boneOf :: "video option \<Rightarrow> keypoint \<Rightarrow> keypoint \<Rightarrow> prim" where
  \<comment> \<open>the line segment between two keypoints\<close>
  "boneOf vref a b =
     BoneLine (mapToDisplaySpace vref (kp_x a) (kp_y a)) (mapToDisplaySpace vref (kp_x b) (kp_y b))"

definition jointNames :: "string list" where
  \<comment> \<open>the joint names of the skeleton graph\<close>
  "jointNames = remdups (map fst connections @ map snd connections)"




section \<open>Example data\<close>

definition demo_kp :: "string \<Rightarrow> real \<Rightarrow> real \<Rightarrow> real \<Rightarrow> keypoint" where
  "demo_kp n a b sc = \<lparr>kp_name = n, kp_x = a, kp_y = b, kp_score = Some sc\<rparr>"

definition demo_video :: video where
  \<comment> \<open>a 1920 x 1080 video shown at 640 x 360, playing\<close>
  "demo_video = \<lparr>currentTime = 6.05, paused = False, videoWidth = 1920, videoHeight = 1080,
                  rectWidth = 640, rectHeight = 360\<rparr>"

definition demo_canvas :: canvas where
  "demo_canvas = \<lparr>cv_width = 640, cv_height = 360, has_ctx = True, content = []\<rparr>"

definition demo_state :: state where
  "demo_state =
     \<lparr>detector = True, videoRef = Some demo_video, canvasRef = Some demo_canvas,
      isPaused = False, isPlaying = True, isVideoReady = True, showDimming = True,
      dim_width = 640, dim_height = 360, currentKeypoints = None, clickedJoint = None,
      mouse_x = 0, mouse_y = 0, console = []\<rparr>"

definition demo_paused :: state where
  \<comment> \<open>the example state, paused\<close>
  "demo_paused =
     demo_state\<lparr>videoRef := Some (demo_video\<lparr>paused := True\<rparr>), isPaused := True\<rparr>"

definition demo_three :: "keypoint list" where
  \<comment> \<open>a low-score keypoint and two confident ones, the first and the last at the same place\<close>
  "demo_three = [demo_kp ''nose'' 990 600 0.29, demo_kp ''left_knee'' 960 600 0.5,
                 demo_kp ''left_ankle'' 990 600 0.9]"

definition demo_marker :: prim where
  \<comment> \<open>a marker left on the canvas by an earlier cycle\<close>
  "demo_marker = JointMarker \<lparr>mx = Some 320, my = Some 200\<rparr> ''#FFA500''"

definition demo_drawn :: state where
  \<comment> \<open>the paused example state with that marker on the canvas\<close>
  "demo_drawn = demo_paused\<lparr>canvasRef := Some (demo_canvas\<lparr>content := [demo_marker]\<rparr>)\<rparr>"

definition demo_hover :: state where
  \<comment> \<open>the paused example state with the mouse at (100, 100)\<close>
  "demo_hover = demo_paused\<lparr>mouse_x := 100, mouse_y := 100\<rparr>"

definition demo_arm :: pose where
  \<comment> \<open>a pose of two confident keypoints, mapped to (100, 100) and (200, 200)\<close>
  "demo_arm = \<lparr>keypoints = Some [demo_kp ''left_shoulder'' 300 300 0.9,
                                   demo_kp ''left_elbow'' 600 600 0.9],
               pose_score = Some 0.9\<rparr>"


definition demo_single :: pose where
  \<comment> \<open>a pose with exactly one confident keypoint\<close>
  "demo_single = \<lparr>keypoints = Some [demo_kp ''left_knee'' 960 600 0.5,
                                      demo_kp ''nose'' 100 100 0.29],
                  pose_score = Some 0.9\<rparr>"

definition demo_column :: pose where
  \<comment> \<open>a pose whose confident keypoints share their x coordinate\<close>
  "demo_column = \<lparr>keypoints = Some [demo_kp ''left_hip'' 960 300 0.9,
                                      demo_kp ''left_knee'' 960 600 0.9],
                  pose_score = Some 0.9\<rparr>"

definition demo_boundary :: "keypoint list" where
  \<comment> \<open>a keypoint of score exactly 0.3 and a confident one, 10 apart on the display\<close>
  "demo_boundary = [demo_kp ''left_knee'' 960 600 0.3, demo_kp ''left_ankle'' 990 600 0.9]"

section \<open>Basic facts\<close>

lemma Math_round_eq: "Math_round r = round r"
  by (simp add: Math_round_def round_def)

lemma str_includes_examples:
  "str_includes ''left_elbow'' ''elbow''"
  "str_includes ''left_elbow'' ''left''"
  "\<not> str_includes ''left_elbow'' ''knee''"
  "\<not> str_includes ''right_knee'' ''elbow''"
  "str_includes ''right_knee'' ''knee''"
  "\<not> str_includes ''right_knee'' ''left''"
  "\<not> str_includes ''left_hip'' ''elbow''"
  "\<not> str_includes ''left_hip'' ''knee''"
  "str_includes ''knee_elbow'' ''knee''"
  "str_includes ''knee_elbow'' ''elbow''"
  "\<not> str_includes ''knee_elbow'' ''left''"
  by (simp_all add: str_includes_def sublist_Cons_right)

lemma Math_atan2_examples: "Math_atan2 1 0 = pi / 2" "Math_atan2 0 (- 1) = pi"
  by (simp_all add: Math_atan2_def)

section \<open>Joint angles: what the calculator returns\<close>

lemma angle_elbow:
  "str_includes n ''elbow'' \<Longrightarrow> m (sideOf n @ ''_shoulder'') = Some sh \<Longrightarrow>
   m (sideOf n @ ''_elbow'') = Some el \<Longrightarrow> m (sideOf n @ ''_wrist'') = Some wr \<Longrightarrow>
   calculateJointAngle m n = Some (angleSpec sh el wr)"
  by (simp add: calculateJointAngle_def sideOf_def angleSpec_def degrees_def Math_round_eq Let_def)

lemma angle_knee:
  "\<not> str_includes n ''elbow'' \<Longrightarrow> str_includes n ''knee'' \<Longrightarrow>
   m (sideOf n @ ''_hip'') = Some hp \<Longrightarrow> m (sideOf n @ ''_knee'') = Some kn \<Longrightarrow>
   m (sideOf n @ ''_ankle'') = Some an \<Longrightarrow>
   calculateJointAngle m n = Some (angleSpec hp kn an)"
  by (simp add: calculateJointAngle_def sideOf_def angleSpec_def degrees_def Math_round_eq Let_def)

lemma angle_other:
  "\<not> str_includes n ''elbow'' \<Longrightarrow> \<not> str_includes n ''knee'' \<Longrightarrow> calculateJointAngle m n = None"
  by (simp add: calculateJointAngle_def)

lemma angle_missing_elbow:
  "str_includes n ''elbow'' \<Longrightarrow>
   m (sideOf n @ ''_shoulder'') = None \<or> m (sideOf n @ ''_elbow'') = None
     \<or> m (sideOf n @ ''_wrist'') = None \<Longrightarrow>
   calculateJointAngle m n = None"
  by (cases "str_includes n ''left''")
     (auto simp add: calculateJointAngle_def sideOf_def Let_def split: option.splits)

lemma angle_missing_knee:
  "\<not> str_includes n ''elbow'' \<Longrightarrow> str_includes n ''knee'' \<Longrightarrow>
   m (sideOf n @ ''_hip'') = None \<or> m (sideOf n @ ''_knee'') = None
     \<or> m (sideOf n @ ''_ankle'') = None \<Longrightarrow>
   calculateJointAngle m n = None"
  by (cases "str_includes n ''left''")
     (auto simp add: calculateJointAngle_def sideOf_def Let_def split: option.splits)

lemma angle_right_angle_elbow:
  "calculateJointAngle
     (buildKeypointMap [demo_kp ''left_shoulder'' 0 0 0.9, demo_kp ''left_elbow'' 1 0 0.9,
                        demo_kp ''left_wrist'' 1 1 0.9]) ''left_elbow'' = Some 90"
  by (simp add: calculateJointAngle_def buildKeypointMap_def addKeypoint_def demo_kp_def
        str_includes_examples Math_atan2_examples Math_round_def)

text \<open>
  The calculator tests for \<open>elbow\<close> first and for \<open>knee\<close> only otherwise. No joint of
  the skeleton has a name with both; for such a name, \<open>knee_elbow\<close> say, the elbow
  branch decides, and a map with hip, knee and ankle but no shoulder gives \<open>null\<close>.
\<close>

lemma jointNames_one_kind:
  "n \<in> set jointNames \<Longrightarrow> \<not> (str_includes n ''elbow'' \<and> str_includes n ''knee'')"
  by (auto simp add: jointNames_def connections_def str_includes_def sublist_Cons_right)

lemma calculateJointAngle_elbow_first:
  "calculateJointAngle
     (buildKeypointMap [demo_kp ''right_hip'' 0 0 0.9, demo_kp ''right_knee'' 1 0 0.9,
                        demo_kp ''right_ankle'' 1 1 0.9]) ''knee_elbow'' = None"
  by (simp add: calculateJointAngle_def buildKeypointMap_def addKeypoint_def demo_kp_def
        sideOf_def str_includes_examples)

text \<open>
  Claim C2: if the joint name contains \<open>elbow\<close> and the map holds the shoulder, elbow and
  wrist of the side, the result is the absolute value of the rounded angle in degrees
  between wrist and shoulder as seen from the elbow; if the name contains \<open>knee\<close> and
  the map holds hip, knee and ankle, the same with hip, knee, ankle; the side is left if
  the name contains \<open>left\<close>, else right. For a name with neither \<open>elbow\<close> nor \<open>knee\<close>
  (such as \<open>left_hip\<close>), and when one of the three landmarks is missing, the result is
  \<open>null\<close>. For shoulder (0,0), elbow (1,0), wrist (1,1) the result is 90. The knee
  cases are for the joint names of the skeleton and for every other name without
  \<open>elbow\<close>: a joint name of the skeleton never contains both \<open>elbow\<close> and \<open>knee\<close>.
\<close>

theorem calculateJointAngle_cases:
  "(str_includes n1 ''elbow'' \<and> m1 (sideOf n1 @ ''_shoulder'') = Some sh
      \<and> m1 (sideOf n1 @ ''_elbow'') = Some el \<and> m1 (sideOf n1 @ ''_wrist'') = Some wr
    \<longrightarrow> calculateJointAngle m1 n1 = Some (angleSpec sh el wr))
   \<and> ((n2 \<in> set jointNames \<or> \<not> str_includes n2 ''elbow'') \<and> str_includes n2 ''knee''
      \<and> m2 (sideOf n2 @ ''_hip'') = Some hp \<and> m2 (sideOf n2 @ ''_knee'') = Some kn
      \<and> m2 (sideOf n2 @ ''_ankle'') = Some an
    \<longrightarrow> calculateJointAngle m2 n2 = Some (angleSpec hp kn an))
   \<and> (\<not> str_includes n3 ''elbow'' \<and> \<not> str_includes n3 ''knee''
    \<longrightarrow> calculateJointAngle m3 n3 = None)
   \<and> (str_includes n4 ''elbow''
      \<and> (m4 (sideOf n4 @ ''_shoulder'') = None \<or> m4 (sideOf n4 @ ''_elbow'') = None
         \<or> m4 (sideOf n4 @ ''_wrist'') = None)
    \<longrightarrow> calculateJointAngle m4 n4 = None)
   \<and> ((n5 \<in> set jointNames \<or> \<not> str_includes n5 ''elbow'') \<and> str_includes n5 ''knee''
      \<and> (m5 (sideOf n5 @ ''_hip'') = None \<or> m5 (sideOf n5 @ ''_knee'') = None
         \<or> m5 (sideOf n5 @ ''_ankle'') = None)
    \<longrightarrow> calculateJointAngle m5 n5 = None)
   \<and> calculateJointAngle m6 ''left_hip'' = None
   \<and> calculateJointAngle
        (buildKeypointMap [demo_kp ''left_shoulder'' 0 0 0.9, demo_kp ''left_elbow'' 1 0 0.9,
                           demo_kp ''left_wrist'' 1 1 0.9]) ''left_elbow'' = Some 90
   \<and> (n7 \<in> set jointNames
    \<longrightarrow> \<not> (str_includes n7 ''elbow'' \<and> str_includes n7 ''knee''))"
proof -
  have e2: "\<not> str_includes n2 ''elbow''"
    if "n2 \<in> set jointNames \<or> \<not> str_includes n2 ''elbow''" and "str_includes n2 ''knee''"
    using that jointNames_one_kind [of n2] by blast
  have e5: "\<not> str_includes n5 ''elbow''"
    if "n5 \<in> set jointNames \<or> \<not> str_includes n5 ''elbow''" and "str_includes n5 ''knee''"
    using that jointNames_one_kind [of n5] by blast
  show ?thesis
    using angle_elbow [of n1 m1 sh el wr] angle_knee [of n2 m2 hp kn an]
      angle_other [of n3 m3] angle_missing_elbow [of n4 m4] angle_missing_knee [of n5 m5]
      angle_other [of "''left_hip''" m6] angle_right_angle_elbow e2 e5
      jointNames_one_kind [of n7]
    by (simp add: str_includes_examples) blast
qed

theorem calculateJointAngle_cases_witness:
  "str_includes ''left_elbow'' ''elbow''
   \<and> calculateJointAngle
        (buildKeypointMap [demo_kp ''left_shoulder'' 0 0 0.9, demo_kp ''left_elbow'' 1 0 0.9,
                           demo_kp ''left_wrist'' 1 1 0.9]) ''left_elbow''
       = Some (angleSpec (demo_kp ''left_shoulder'' 0 0 0.9) (demo_kp ''left_elbow'' 1 0 0.9)
                 (demo_kp ''left_wrist'' 1 1 0.9))
   \<and> ''right_knee'' \<in> set jointNames
   \<and> \<not> str_includes ''right_knee'' ''elbow'' \<and> str_includes ''right_knee'' ''knee''
   \<and> calculateJointAngle
        (buildKeypointMap [demo_kp ''right_hip'' 0 0 0.9, demo_kp ''right_knee'' 1 0 0.9,
                           demo_kp ''right_ankle'' 1 1 0.9]) ''right_knee''
       = Some (angleSpec (demo_kp ''right_hip'' 0 0 0.9) (demo_kp ''right_knee'' 1 0 0.9)
                 (demo_kp ''right_ankle'' 1 1 0.9))
   \<and> \<not> str_includes ''left_hip'' ''elbow'' \<and> \<not> str_includes ''left_hip'' ''knee''
   \<and> calculateJointAngle Map.empty ''left_hip'' = None
   \<and> buildKeypointMap [demo_kp ''left_shoulder'' 0 0 0.9, demo_kp ''left_elbow'' 1 0 0.9]
        (sideOf ''left_elbow'' @ ''_wrist'') = None
   \<and> calculateJointAngle
        (buildKeypointMap [demo_kp ''left_shoulder'' 0 0 0.9, demo_kp ''left_elbow'' 1 0 0.9])
        ''left_elbow'' = None
   \<and> buildKeypointMap [demo_kp ''right_knee'' 1 0 0.9, demo_kp ''right_ankle'' 1 1 0.9]
        (sideOf ''right_knee'' @ ''_hip'') = None
   \<and> calculateJointAngle
        (buildKeypointMap [demo_kp ''right_knee'' 1 0 0.9, demo_kp ''right_ankle'' 1 1 0.9])
        ''right_knee'' = None"
  using calculateJointAngle_cases
    [where ?n1.0 = "''left_elbow''"
       and ?m1.0 = "buildKeypointMap [demo_kp ''left_shoulder'' 0 0 0.9,
                      demo_kp ''left_elbow'' 1 0 0.9, demo_kp ''left_wrist'' 1 1 0.9]"
       and sh = "demo_kp ''left_shoulder'' 0 0 0.9" and el = "demo_kp ''left_elbow'' 1 0 0.9"
       and wr = "demo_kp ''left_wrist'' 1 1 0.9"
       and ?n2.0 = "''right_knee''"
       and ?m2.0 = "buildKeypointMap [demo_kp ''right_hip'' 0 0 0.9,
                      demo_kp ''right_knee'' 1 0 0.9, demo_kp ''right_ankle'' 1 1 0.9]"
       and hp = "demo_kp ''right_hip'' 0 0 0.9" and kn = "demo_kp ''right_knee'' 1 0 0.9"
       and an = "demo_kp ''right_ankle'' 1 1 0.9"
       and ?n3.0 = "''left_hip''" and ?m3.0 = Map.empty
       and ?n4.0 = "''left_elbow''"
       and ?m4.0 = "buildKeypointMap [demo_kp ''left_shoulder'' 0 0 0.9,
                      demo_kp ''left_elbow'' 1 0 0.9]"
       and ?n5.0 = "''right_knee''"
       and ?m5.0 = "buildKeypointMap [demo_kp ''right_knee'' 1 0 0.9,
                      demo_kp ''right_ankle'' 1 1 0.9]"]
  by (simp add: str_includes_examples sideOf_def buildKeypointMap_def addKeypoint_def demo_kp_def
        jointNames_def connections_def)

section \<open>Coordinate mapping: degenerate sizes and the round trip\<close>

text \<open>
  Claim C6, as stated, has the mapping return its input when a native or a display
  dimension is zero. The only guard of \<open>mapToDisplaySpace\<close> is the missing video element:
  with a display width of zero (and the video of 1920 x 1080) the point (960, 600) is
  mapped to x = 0, and with a native width of zero the division by zero is performed
  and x is not a finite number.
\<close>

theorem mapToDisplaySpace_zero_counterexample:
  "rectWidth (demo_video\<lparr>rectWidth := 0\<rparr>) = 0
   \<and> mapToDisplaySpace (Some (demo_video\<lparr>rectWidth := 0\<rparr>)) 960 600
       = \<lparr>mx = Some 0, my = Some 200\<rparr>
   \<and> mapToDisplaySpace (Some (demo_video\<lparr>rectWidth := 0\<rparr>)) 960 600
       \<noteq> \<lparr>mx = Some 960, my = Some 600\<rparr>
   \<and> videoWidth (demo_video\<lparr>videoWidth := 0\<rparr>) = 0
   \<and> mapToDisplaySpace (Some (demo_video\<lparr>videoWidth := 0\<rparr>)) 960 600
       = \<lparr>mx = None, my = Some 200\<rparr>"
  by (simp add: mapToDisplaySpace_def js_div_def js_mul_def demo_video_def)

text \<open>
  Claim C6, amended: the mapping returns the input point unchanged only when there is no
  video element. With a video element it always scales: each coordinate is multiplied
  by display size over native size, which is 0 when the display size is zero and the
  native size is not, and is not a finite number when the native size is zero (the
  division by zero is performed).
\<close>

theorem mapToDisplaySpace_degenerate:
  "mapToDisplaySpace None a b = \<lparr>mx = Some a, my = Some b\<rparr>
   \<and> mx (mapToDisplaySpace (Some v) a b)
       = (if videoWidth v = 0 then None else Some (a * (rectWidth v / real (videoWidth v))))
   \<and> my (mapToDisplaySpace (Some v) a b)
       = (if videoHeight v = 0 then None else Some (b * (rectHeight v / real (videoHeight v))))"
  by (simp add: mapToDisplaySpace_def js_div_def js_mul_def)

theorem mapToDisplaySpace_degenerate_witness:
  "mapToDisplaySpace None 960 600 = \<lparr>mx = Some 960, my = Some 600\<rparr>
   \<and> mx (mapToDisplaySpace (Some (demo_video\<lparr>videoWidth := 0\<rparr>)) 960 600) = None
   \<and> my (mapToDisplaySpace (Some (demo_video\<lparr>rectHeight := 0\<rparr>)) 960 600) = Some 0
   \<and> mapToDisplaySpace (Some demo_video) 960 600 = \<lparr>mx = Some 320, my = Some 200\<rparr>"
  using mapToDisplaySpace_degenerate [of 960 600 "demo_video\<lparr>videoWidth := 0\<rparr>"]
    mapToDisplaySpace_degenerate [of 960 600 "demo_video\<lparr>rectHeight := 0\<rparr>"]
    mapToDisplaySpace_degenerate [of 960 600 demo_video]
  by (simp add: demo_video_def mapToDisplaySpace_def js_div_def js_mul_def)

text \<open>
  Claim C8: for a native size and a display size with all four dimensions nonzero,
  mapping a point to display space and scaling it back by native size over display size
  recovers the point exactly (over the reals).
\<close>

theorem mapToDisplaySpace_round_trip:
  "videoWidth v \<noteq> 0 \<Longrightarrow> videoHeight v \<noteq> 0 \<Longrightarrow> rectWidth v \<noteq> 0 \<Longrightarrow> rectHeight v \<noteq> 0 \<Longrightarrow>
   inverseScale v (mapToDisplaySpace (Some v) a b) = \<lparr>mx = Some a, my = Some b\<rparr>"
  by (simp add: mapToDisplaySpace_def js_div_def js_mul_def inverseScale_def)

theorem mapToDisplaySpace_round_trip_witness:
  "videoWidth demo_video \<noteq> 0 \<and> videoHeight demo_video \<noteq> 0
   \<and> rectWidth demo_video \<noteq> 0 \<and> rectHeight demo_video \<noteq> 0
   \<and> mapToDisplaySpace (Some demo_video) 960 600 = \<lparr>mx = Some 320, my = Some 200\<rparr>
   \<and> inverseScale demo_video \<lparr>mx = Some 320, my = Some 200\<rparr> = \<lparr>mx = Some 960, my = Some 600\<rparr>"
  using mapToDisplaySpace_round_trip [of demo_video 960 600]
  by (simp add: mapToDisplaySpace_def js_div_def js_mul_def demo_video_def)

section \<open>Automatic pauses\<close>

text \<open>
  What the handler of \<open>timeupdate\<close> does for any schedule: it returns at once when the
  current time is 0, and otherwise pauses and detects when the video is playing and
  the time is within 0.1s of an entry.
\<close>

lemma handleTimeUpdate_triggers:
  "videoRef s = Some video \<Longrightarrow>
   handleTimeUpdate points detect s =
     (if \<not> paused video \<and> currentTime video \<noteq> 0
         \<and> (\<exists>p\<in>set points. \<bar>currentTime video - p\<bar> < 0.1)
      then ([PauseCommand, SettleDelay 200, DetectionPass],
            detect (s\<lparr>videoRef := Some (video\<lparr>paused := True\<rparr>), isPaused := True\<rparr>))
      else ([], s))"
  by (auto simp add: handleTimeUpdate_def list_ex_iff Let_def)

text \<open>
  Claim C4: with the schedule of the program ([6, 10]; [3, 7] in the hover variant), at
  a timeupdate a pause-and-detect cycle (pause command, 200ms settle delay, one
  detection pass on the paused state) is triggered if and only if the video is not
  paused and the current time \<open>t\<close> satisfies \<open>|t - p| < 0.1\<close> for some schedule entry
  \<open>p\<close>; otherwise the handler does nothing. With the schedule [6, 10], \<open>t = 6.05\<close>
  triggers it and \<open>t = 5\<close> does not, and nothing is issued while paused.
\<close>

theorem handleTimeUpdate_schedule:
  "videoRef s = Some video \<Longrightarrow> points = pausePoints \<or> points = pausePoints_hover \<Longrightarrow>
   handleTimeUpdate points detect s =
     (if \<not> paused video \<and> (\<exists>p\<in>set points. \<bar>currentTime video - p\<bar> < 0.1)
      then ([PauseCommand, SettleDelay 200, DetectionPass],
            detect (s\<lparr>videoRef := Some (video\<lparr>paused := True\<rparr>), isPaused := True\<rparr>))
      else ([], s))"
  by (auto simp add: handleTimeUpdate_def pausePoints_def pausePoints_hover_def Let_def)

theorem handleTimeUpdate_schedule_witness:
  "videoRef demo_state = Some demo_video
   \<and> currentTime demo_video = 6.05 \<and> \<not> paused demo_video \<and> pausePoints = [6, 10]
   \<and> handleTimeUpdate pausePoints (detectAndDraw (Throws ErrorObject)) demo_state
       = ([PauseCommand, SettleDelay 200, DetectionPass],
          detectAndDraw (Throws ErrorObject)
            (demo_state\<lparr>videoRef := Some (demo_video\<lparr>paused := True\<rparr>), isPaused := True\<rparr>))
   \<and> fst (handleTimeUpdate pausePoints (detectAndDraw (Throws ErrorObject))
            (demo_state\<lparr>videoRef := Some (demo_video\<lparr>currentTime := 5\<rparr>)\<rparr>)) = []
   \<and> fst (handleTimeUpdate pausePoints (detectAndDraw (Throws ErrorObject))
            (demo_state\<lparr>videoRef := Some (demo_video\<lparr>paused := True\<rparr>)\<rparr>)) = []"
  using handleTimeUpdate_schedule
      [of demo_state demo_video pausePoints "detectAndDraw (Throws ErrorObject)"]
    handleTimeUpdate_schedule
      [of "demo_state\<lparr>videoRef := Some (demo_video\<lparr>currentTime := 5\<rparr>)\<rparr>"
          "demo_video\<lparr>currentTime := 5\<rparr>" pausePoints "detectAndDraw (Throws ErrorObject)"]
    handleTimeUpdate_schedule
      [of "demo_state\<lparr>videoRef := Some (demo_video\<lparr>paused := True\<rparr>)\<rparr>"
          "demo_video\<lparr>paused := True\<rparr>" pausePoints "detectAndDraw (Throws ErrorObject)"]
  by (simp add: demo_state_def demo_video_def pausePoints_def)

text \<open>
  Claim C9: whatever the schedule, a timeupdate whose current time is exactly 0 triggers
  nothing and leaves the state as it is, so an entry within the tolerance of time 0
  never fires there.
\<close>

theorem handleTimeUpdate_at_zero:
  "videoRef s = Some video \<Longrightarrow> currentTime video = 0 \<Longrightarrow>
   handleTimeUpdate points detect s = ([], s)"
  by (simp add: handleTimeUpdate_def)

theorem handleTimeUpdate_at_zero_witness:
  "videoRef (demo_state\<lparr>videoRef := Some (demo_video\<lparr>currentTime := 0\<rparr>)\<rparr>)
     = Some (demo_video\<lparr>currentTime := 0\<rparr>)
   \<and> currentTime (demo_video\<lparr>currentTime := 0\<rparr>) = 0
   \<and> list_ex (\<lambda>point. \<bar>0 - point\<bar> < (0.1 :: real)) [0.05, 6]
   \<and> handleTimeUpdate [0.05, 6] (detectAndDraw (Throws ErrorObject))
        (demo_state\<lparr>videoRef := Some (demo_video\<lparr>currentTime := 0\<rparr>)\<rparr>)
       = ([], demo_state\<lparr>videoRef := Some (demo_video\<lparr>currentTime := 0\<rparr>)\<rparr>)"
  using handleTimeUpdate_at_zero
      [of "demo_state\<lparr>videoRef := Some (demo_video\<lparr>currentTime := 0\<rparr>)\<rparr>"
          "demo_video\<lparr>currentTime := 0\<rparr>" "[0.05, 6]" "detectAndDraw (Throws ErrorObject)"]
  by simp

section \<open>Hit testing\<close>

lemma jointHit_iff: "jointHit vref px py k \<longleftrightarrow> hitScoreCheck k \<and> withinRadius vref px py k"
  by (auto simp add: jointHit_def hitScoreCheck_def withinRadius_def distanceTo_def
        truthy_def score_lt_def js_lt_def Let_def split: option.splits)

lemma find_first: "\<forall>j\<in>set pre. \<not> P j \<Longrightarrow> P k \<Longrightarrow> find P (pre @ k # post) = Some k"
  by (induction pre) auto

lemma find_none: "\<forall>j\<in>set xs. \<not> P j \<Longrightarrow> find P xs = None"
  by (simp add: find_None_iff)

lemma click_hit:
  "videoRef s = Some video \<Longrightarrow> paused video \<Longrightarrow> currentKeypoints s = Some kps \<Longrightarrow>
   canvasRef s = Some cv \<Longrightarrow> find (jointHit (videoRef s) px py) kps = Some k \<Longrightarrow>
   clickedJoint (handleCanvasClick px py s) = Some (jointDetail (videoRef s) kps k)"
  by (simp add: handleCanvasClick_def jointDetail_def Let_def)

lemma click_miss:
  "videoRef s = Some video \<Longrightarrow> paused video \<Longrightarrow> currentKeypoints s = Some kps \<Longrightarrow>
   canvasRef s = Some cv \<Longrightarrow> find (jointHit (videoRef s) px py) kps = None \<Longrightarrow>
   clickedJoint (handleCanvasClick px py s) = None"
  by (simp add: handleCanvasClick_def)

lemma radius_149: "distanceTo px py (mapToDisplaySpace vref (kp_x k) (kp_y k)) = Some 14.9 \<Longrightarrow> withinRadius vref px py k"
  by (auto simp add: withinRadius_def distanceTo_def Let_def split: option.splits)

lemma radius_151: "distanceTo px py (mapToDisplaySpace vref (kp_x k) (kp_y k)) = Some 15.1 \<Longrightarrow> \<not> withinRadius vref px py k"
  by (auto simp add: withinRadius_def distanceTo_def Let_def split: option.splits)

lemma sqrt_lt_15: "sqrt r < 15 \<longleftrightarrow> r < 225"
proof -
  have "sqrt 225 = sqrt (15\<^sup>2)" by simp
  then have "sqrt 225 = 15" by simp
  then show ?thesis using real_sqrt_less_iff [of r 225] by simp
qed

lemma sqrt_eq_149: "sqrt ((149/10)\<^sup>2) = 149/10"
  by simp

text \<open>
  What the hit test does on a click while paused with a pose present: it returns the
  first keypoint, in the order of the pose's keypoint list, that passes the score test
  of the hit test and whose mapped position is at a Euclidean distance of less than 15
  from the pointer, whether or not a later keypoint is nearer, and the selected joint
  detail becomes that keypoint's; at a mapped distance of 14.9 such a keypoint is hit
  and at 15.1 none is; when no keypoint qualifies the result is \<open>null\<close> and the
  selected joint detail is cleared.
\<close>

lemma hit_test_first_match:
  assumes "videoRef s = Some video" and "paused video" and "currentKeypoints s = Some kps"
    and "canvasRef s = Some cv"
  shows "(kps = pre @ k # post
          \<and> (\<forall>j\<in>set pre. \<not> (hitScoreCheck j \<and> withinRadius (videoRef s) px py j))
          \<and> hitScoreCheck k \<and> withinRadius (videoRef s) px py k
         \<longrightarrow> find (jointHit (videoRef s) px py) kps = Some k
             \<and> clickedJoint (handleCanvasClick px py s) = Some (jointDetail (videoRef s) kps k))
       \<and> ((\<forall>j\<in>set kps. \<not> (hitScoreCheck j \<and> withinRadius (videoRef s) px py j))
         \<longrightarrow> find (jointHit (videoRef s) px py) kps = None
             \<and> clickedJoint (handleCanvasClick px py s) = None)
       \<and> (hitScoreCheck k1
           \<and> distanceTo px py (mapToDisplaySpace (videoRef s) (kp_x k1) (kp_y k1)) = Some 14.9
         \<longrightarrow> jointHit (videoRef s) px py k1)
       \<and> (distanceTo px py (mapToDisplaySpace (videoRef s) (kp_x k2) (kp_y k2)) = Some 15.1
         \<longrightarrow> \<not> jointHit (videoRef s) px py k2)"
proof -
  let ?P = "jointHit (videoRef s) px py"
  have first: "find ?P kps = Some k"
    if "kps = pre @ k # post"
      and "\<forall>j\<in>set pre. \<not> (hitScoreCheck j \<and> withinRadius (videoRef s) px py j)"
      and "hitScoreCheck k" and "withinRadius (videoRef s) px py k"
    using that find_first [of pre ?P k post] by (simp add: jointHit_iff)
  have none: "find ?P kps = None"
    if "\<forall>j\<in>set kps. \<not> (hitScoreCheck j \<and> withinRadius (videoRef s) px py j)"
    using that find_none [of kps ?P] by (simp add: jointHit_iff)
  show ?thesis
    using first none click_hit [OF assms] click_miss [OF assms]
      radius_149 [of px py "videoRef s" k1] radius_151 [of px py "videoRef s" k2]
    by (auto simp add: jointHit_iff)
qed

lemma hit_test_first_match_example:
  "videoRef (demo_paused\<lparr>currentKeypoints := Some demo_three\<rparr>)
     = Some (demo_video\<lparr>paused := True\<rparr>)
   \<and> paused (demo_video\<lparr>paused := True\<rparr>)
   \<and> canvasRef (demo_paused\<lparr>currentKeypoints := Some demo_three\<rparr>) = Some demo_canvas
   \<and> demo_three = [demo_kp ''nose'' 990 600 0.29] @ demo_kp ''left_knee'' 960 600 0.5 # [demo_kp ''left_ankle'' 990 600 0.9]
   \<and> \<not> hitScoreCheck (demo_kp ''nose'' 990 600 0.29)
   \<and> hitScoreCheck (demo_kp ''left_knee'' 960 600 0.5)
   \<and> withinRadius (Some (demo_video\<lparr>paused := True\<rparr>)) 330 200 (demo_kp ''left_knee'' 960 600 0.5)
   \<and> withinRadius (Some (demo_video\<lparr>paused := True\<rparr>)) 330 200 (demo_kp ''left_ankle'' 990 600 0.9)
   \<and> clickedJoint (handleCanvasClick 330 200 (demo_paused\<lparr>currentKeypoints := Some demo_three\<rparr>))
       = Some \<lparr>cj_name = ''left_knee'', cj_angle = None, cj_x = Some 320, cj_y = Some 200\<rparr>
   \<and> distanceTo 334.9 200 (mapToDisplaySpace (Some (demo_video\<lparr>paused := True\<rparr>)) 960 600) = Some 14.9
   \<and> jointHit (Some (demo_video\<lparr>paused := True\<rparr>)) 334.9 200 (demo_kp ''left_knee'' 960 600 0.5)
   \<and> distanceTo 335.1 200 (mapToDisplaySpace (Some (demo_video\<lparr>paused := True\<rparr>)) 960 600) = Some 15.1
   \<and> \<not> jointHit (Some (demo_video\<lparr>paused := True\<rparr>)) 335.1 200 (demo_kp ''left_knee'' 960 600 0.5)
   \<and> clickedJoint (handleCanvasClick 335.1 200
        (demo_paused\<lparr>currentKeypoints := Some [demo_kp ''left_knee'' 960 600 0.5],
           clickedJoint := Some \<lparr>cj_name = ''left_knee'', cj_angle = None, cj_x = Some 320, cj_y = Some 200\<rparr>\<rparr>)) = None"
proof -
  let ?v = "demo_video\<lparr>paused := True\<rparr>"
  let ?s = "demo_paused\<lparr>currentKeypoints := Some demo_three\<rparr>"
  let ?knee = "demo_kp ''left_knee'' 960 600 0.5"
  let ?d = "\<lparr>cj_name = ''left_knee'', cj_angle = None, cj_x = Some 320, cj_y = Some 200\<rparr>"
  let ?s1 = "demo_paused\<lparr>currentKeypoints := Some [?knee], clickedJoint := Some ?d\<rparr>"
  have m: "mapToDisplaySpace (Some ?v) 960 600 = \<lparr>mx = Some 320, my = Some 200\<rparr>"
      "mapToDisplaySpace (Some ?v) 990 600 = \<lparr>mx = Some 330, my = Some 200\<rparr>"
    by (simp_all add: mapToDisplaySpace_def js_div_def js_mul_def demo_video_def)
  have d1: "distanceTo 334.9 200 \<lparr>mx = Some 320, my = Some 200\<rparr> = Some 14.9"
    using sqrt_eq_149 by (simp add: distanceTo_def)
  have "sqrt ((151/10)\<^sup>2) = (151/10 :: real)" by simp
  then have d2: "distanceTo 335.1 200 \<lparr>mx = Some 320, my = Some 200\<rparr> = Some 15.1"
    by (simp add: distanceTo_def)
  have f: "\<not> hitScoreCheck (demo_kp ''nose'' 990 600 0.29)" "hitScoreCheck ?knee"
    by (simp_all add: hitScoreCheck_def demo_kp_def)
  have w: "withinRadius (Some ?v) 330 200 ?knee"
      "withinRadius (Some ?v) 330 200 (demo_kp ''left_ankle'' 990 600 0.9)"
      "\<not> withinRadius (Some ?v) 335.1 200 ?knee"
    using m by (simp_all add: withinRadius_def demo_kp_def sqrt_lt_15 power2_eq_square)
  have st: "videoRef ?s = Some ?v" "canvasRef ?s = Some demo_canvas" "currentKeypoints ?s = Some demo_three"
       "videoRef ?s1 = Some ?v" "canvasRef ?s1 = Some demo_canvas" "currentKeypoints ?s1 = Some [?knee]"
    by (simp_all add: demo_paused_def demo_state_def)
  have p: "paused ?v" by simp
  have split: "demo_three = [demo_kp ''nose'' 990 600 0.29] @ ?knee # [demo_kp ''left_ankle'' 990 600 0.9]"
    by (simp add: demo_three_def)
  have jd: "jointDetail (Some ?v) demo_three ?knee = ?d"
    using m by (simp add: jointDetail_def demo_kp_def demo_three_def calculateJointAngle_def
        buildKeypointMap_def addKeypoint_def str_includes_def sublist_Cons_right)
  note A = hit_test_first_match [OF st(1) p st(3) st(2),
      where pre = "[demo_kp ''nose'' 990 600 0.29]" and k = ?knee
        and post = "[demo_kp ''left_ankle'' 990 600 0.9]" and px = 330 and py = 200]
  note B = hit_test_first_match [OF st(1) p st(3) st(2), where px = "334.9" and py = 200 and ?k1.0 = ?knee]
  note C = hit_test_first_match [OF st(4) p st(6) st(5), where px = "335.1" and py = 200 and ?k2.0 = ?knee]
  have r1: "clickedJoint (handleCanvasClick 330 200 ?s) = Some ?d"
    using A split f w st jd by simp
  have r2: "jointHit (Some ?v) 334.9 200 ?knee"
    using B f d1 m st by (simp add: demo_kp_def)
  have r3: "\<not> jointHit (Some ?v) 335.1 200 ?knee"
    using C d2 m st by (simp add: demo_kp_def)
  have r4: "clickedJoint (handleCanvasClick 335.1 200 ?s1) = None"
    using C w st by simp
  show ?thesis
    using r1 r2 r3 r4 st p split f w d1 d2 m by simp
qed

text \<open>
  The filter of the hit test differs from \<open>score > 0.3\<close> at one value only: a score of
  exactly 0.3 passes it.
\<close>

lemma hitScoreCheck_boundary:
  "hitScoreCheck k \<longleftrightarrow> aboveThreshold k \<or> kp_score k = Some 0.3"
  by (auto simp add: hitScoreCheck_def aboveThreshold_def split: option.splits)

text \<open>
  Claim C5 (the hit test returns the first keypoint that passes the confidence filter
  and is within the radius) fails at a score of exactly 0.3, which the hit test lets
  through and the filter \<open>score > 0.3\<close> of the drawing paths does not. With a keypoint
  of score 0.3 and, after it, one of score 0.9, both within the radius of the click,
  the click selects the first, which has no marker on the canvas; the first keypoint
  that passes the filter is the second.
\<close>

theorem hit_test_boundary_score:
  "kp_score (demo_kp ''left_knee'' 960 600 0.3) = Some 0.3
   \<and> \<not> aboveThreshold (demo_kp ''left_knee'' 960 600 0.3)
   \<and> aboveThreshold (demo_kp ''left_ankle'' 990 600 0.9)
   \<and> withinRadius (Some (demo_video\<lparr>paused := True\<rparr>)) 330 200 (demo_kp ''left_knee'' 960 600 0.3)
   \<and> withinRadius (Some (demo_video\<lparr>paused := True\<rparr>)) 330 200 (demo_kp ''left_ankle'' 990 600 0.9)
   \<and> find (jointHit (Some (demo_video\<lparr>paused := True\<rparr>)) 330 200) demo_boundary
       = Some (demo_kp ''left_knee'' 960 600 0.3)
   \<and> clickedJoint (handleCanvasClick 330 200 (demo_paused\<lparr>currentKeypoints := Some demo_boundary\<rparr>))
       = Some \<lparr>cj_name = ''left_knee'', cj_angle = None, cj_x = Some 320, cj_y = Some 200\<rparr>
   \<and> foldl (drawMarker (Some (demo_video\<lparr>paused := True\<rparr>))) [] demo_boundary
       = [JointMarker \<lparr>mx = Some 330, my = Some 200\<rparr> ''#FFA500'']"
proof -
  let ?v = "demo_video\<lparr>paused := True\<rparr>"
  let ?k = "demo_kp ''left_knee'' 960 600 0.3"
  let ?a = "demo_kp ''left_ankle'' 990 600 0.9"
  let ?s = "demo_paused\<lparr>currentKeypoints := Some demo_boundary\<rparr>"
  have m: "mapToDisplaySpace (Some ?v) 960 600 = \<lparr>mx = Some 320, my = Some 200\<rparr>"
      "mapToDisplaySpace (Some ?v) 990 600 = \<lparr>mx = Some 330, my = Some 200\<rparr>"
    by (simp_all add: mapToDisplaySpace_def js_div_def js_mul_def demo_video_def)
  have th: "\<not> aboveThreshold ?k" "aboveThreshold ?a" "kp_score ?k = Some 0.3"
    by (simp_all add: aboveThreshold_def demo_kp_def)
  have w: "withinRadius (Some ?v) 330 200 ?k" "withinRadius (Some ?v) 330 200 ?a"
    using m by (simp_all add: withinRadius_def demo_kp_def sqrt_lt_15 power2_eq_square)
  have hit: "jointHit (Some ?v) 330 200 ?k"
    using w(1) by (simp add: jointHit_iff) (simp add: hitScoreCheck_def demo_kp_def)
  have f: "find (jointHit (Some ?v) 330 200) demo_boundary = Some ?k"
    using hit by (simp add: demo_boundary_def)
  have st: "videoRef ?s = Some ?v" "paused ?v" "currentKeypoints ?s = Some demo_boundary"
      "canvasRef ?s = Some demo_canvas"
    by (simp_all add: demo_paused_def demo_state_def)
  have jd: "jointDetail (Some ?v) demo_boundary ?k
      = \<lparr>cj_name = ''left_knee'', cj_angle = None, cj_x = Some 320, cj_y = Some 200\<rparr>"
    using m by (simp add: jointDetail_def demo_kp_def demo_boundary_def calculateJointAngle_def
        buildKeypointMap_def addKeypoint_def str_includes_def sublist_Cons_right)
  have c: "clickedJoint (handleCanvasClick 330 200 ?s)
      = Some \<lparr>cj_name = ''left_knee'', cj_angle = None, cj_x = Some 320, cj_y = Some 200\<rparr>"
    using click_hit [OF st, of 330 200 ?k] f jd st(1) by simp
  have d: "foldl (drawMarker (Some ?v)) [] demo_boundary
      = [JointMarker \<lparr>mx = Some 330, my = Some 200\<rparr> ''#FFA500'']"
    using m by (simp add: demo_boundary_def drawMarker_def demo_kp_def truthy_def score_gt_def
        getJointColor_def str_includes_def sublist_Cons_right)
  show ?thesis using th w f c d by blast
qed

theorem hit_test_boundary_score_witness:
  "videoRef (demo_paused\<lparr>currentKeypoints := Some demo_boundary\<rparr>)
     = Some (demo_video\<lparr>paused := True\<rparr>)
   \<and> paused (demo_video\<lparr>paused := True\<rparr>)
   \<and> canvasRef (demo_paused\<lparr>currentKeypoints := Some demo_boundary\<rparr>) = Some demo_canvas
   \<and> find (jointHit (Some (demo_video\<lparr>paused := True\<rparr>)) 330 200) demo_boundary
       \<noteq> find (\<lambda>k. aboveThreshold k
                     \<and> withinRadius (Some (demo_video\<lparr>paused := True\<rparr>)) 330 200 k) demo_boundary
   \<and> length (foldl (drawMarker (Some (demo_video\<lparr>paused := True\<rparr>))) [] demo_boundary) = 1"
proof -
  have st: "videoRef (demo_paused\<lparr>currentKeypoints := Some demo_boundary\<rparr>)
     = Some (demo_video\<lparr>paused := True\<rparr>)" "paused (demo_video\<lparr>paused := True\<rparr>)"
    "canvasRef (demo_paused\<lparr>currentKeypoints := Some demo_boundary\<rparr>) = Some demo_canvas"
    by (simp_all add: demo_paused_def demo_state_def)
  have "find (\<lambda>k. aboveThreshold k
                     \<and> withinRadius (Some (demo_video\<lparr>paused := True\<rparr>)) 330 200 k) demo_boundary
      = Some (demo_kp ''left_ankle'' 990 600 0.9)"
    using hit_test_boundary_score by (simp add: demo_boundary_def)
  moreover have "demo_kp ''left_knee'' 960 600 0.3 \<noteq> demo_kp ''left_ankle'' 990 600 0.9"
    by (simp add: demo_kp_def)
  ultimately show ?thesis
    using hit_test_boundary_score st by simp
qed

section \<open>The overlay: which keypoints are drawn\<close>

lemma overlay_simps [simp]:
  "overlay (s\<lparr>canvasRef := Some cv\<rparr>) = content cv"
  "overlay (s\<lparr>console := c\<rparr>) = overlay s"
  "overlay (s\<lparr>currentKeypoints := k\<rparr>) = overlay s"
  by (simp_all add: overlay_def)

lemma confident_iff: "confident k = aboveThreshold k"
  by (auto simp add: confident_def aboveThreshold_def truthy_def score_gt_def split: option.splits)


lemma drawMarker_filter:
  "foldl (drawMarker vref) ctx kps = ctx @ map (markerOf vref) (filter aboveThreshold kps)"
  by (induction kps arbitrary: ctx)
     (simp_all add: drawMarker_def markerOf_def confident_iff [unfolded confident_def])



lemma drawBone_cases:
  "drawBone vref m ctx c =
     ctx @ (case (m (fst c), m (snd c)) of
              (Some a, Some b) \<Rightarrow> if aboveThreshold a \<and> aboveThreshold b then [boneOf vref a b] else []
            | _ \<Rightarrow> [])"
  by (auto simp add: drawBone_def boneOf_def aboveThreshold_def truthy_def score_gt_def
        split: option.splits)

lemma foldl_drawBone:
  "foldl (drawBone vref m) ctx cs =
     ctx @ concat (map (\<lambda>c. case (m (fst c), m (snd c)) of
              (Some a, Some b) \<Rightarrow> if aboveThreshold a \<and> aboveThreshold b then [boneOf vref a b] else []
            | _ \<Rightarrow> []) cs)"
proof (induction cs arbitrary: ctx)
  case Nil
  show ?case by simp
next
  case (Cons c cs)
  show ?case by (simp add: Cons.IH) (simp add: drawBone_cases)
qed



lemma drawSkeleton_append: "drawSkeleton vref ctx kps = ctx @ drawSkeleton vref [] kps"
  by (simp add: drawSkeleton_def foldl_drawBone)

lemma drawSkeleton_bones: "list_all is_bone (drawSkeleton vref [] kps)"
  by (auto simp add: drawSkeleton_def foldl_drawBone list_all_iff boneOf_def
        split: option.splits if_splits)

lemma applyDimmingEffect_append:
  "applyDimmingEffect vref w h ctx kps = ctx @ applyDimmingEffect vref w h [] kps"
  by (simp add: applyDimmingEffect_def Let_def)

lemma applyDimmingEffect_dimming: "list_all is_dimming (applyDimmingEffect vref w h [] kps)"
  by (simp add: applyDimmingEffect_def Let_def)

lemma markers_are_markers: "list_all is_marker (map (markerOf vref) ks)"
  by (simp add: list_all_iff markerOf_def)



























section \<open>The detection cycle: failures\<close>

lemma detectAndDraw_failure:
  "detector s \<Longrightarrow> isVideoReady s \<Longrightarrow> videoRef s = Some video \<Longrightarrow> canvasRef s = Some cv \<Longrightarrow>
   has_ctx cv \<Longrightarrow> paused video \<Longrightarrow> emptyOrThrows est \<Longrightarrow>
   overlay (detectAndDraw est s) = []"
  by (auto simp add: detectAndDraw_def tryBlock_def emptyOrThrows_def Let_def
        split: estimation.splits option.splits list.splits)

lemma detectAndDraw_hover_failure:
  "detector s \<Longrightarrow> isVideoReady s \<Longrightarrow> videoRef s = Some video \<Longrightarrow> canvasRef s = Some cv \<Longrightarrow>
   has_ctx cv \<Longrightarrow> videoWidth video \<noteq> 0 \<Longrightarrow> videoHeight video \<noteq> 0 \<Longrightarrow> emptyOrThrows est \<Longrightarrow>
   overlay (detectAndDraw_hover est s) = []"
  by (auto simp add: detectAndDraw_hover_def tryBlock_hover_def emptyOrThrows_def Let_def
        split: estimation.splits option.splits list.splits)

lemma detectAndDraw_keeps:
  "detector (detectAndDraw est s) = detector s \<and> isVideoReady (detectAndDraw est s) = isVideoReady s
   \<and> videoRef (detectAndDraw est s) = videoRef s
   \<and> (canvasRef (detectAndDraw est s) = None \<longleftrightarrow> canvasRef s = None)"
  by (auto simp add: detectAndDraw_def tryBlock_def Let_def
        split: estimation.splits option.splits list.splits)

lemma detectAndDraw_hover_keeps:
  "detector (detectAndDraw_hover est s) = detector s
   \<and> isVideoReady (detectAndDraw_hover est s) = isVideoReady s
   \<and> videoRef (detectAndDraw_hover est s) = videoRef s
   \<and> (canvasRef (detectAndDraw_hover est s) = None \<longleftrightarrow> canvasRef s = None)"
  by (auto simp add: detectAndDraw_hover_def tryBlock_hover_def Let_def
        split: estimation.splits option.splits list.splits)

lemma detectAndDraw_throws:
  "detector s \<Longrightarrow> isVideoReady s \<Longrightarrow> videoRef s = Some video \<Longrightarrow> canvasRef s = Some cv \<Longrightarrow>
   has_ctx cv \<Longrightarrow> paused video \<Longrightarrow>
   detectAndDraw (Throws e) s =
     s\<lparr>canvasRef := Some (cv\<lparr>cv_width := rectWidth video, cv_height := rectHeight video,
                              content := []\<rparr>),
       console := console s @ [''Error in pose detection:'']\<rparr>"
  by (simp add: detectAndDraw_def tryBlock_def Let_def)

lemma detectAndDraw_empty:
  "detector s \<Longrightarrow> isVideoReady s \<Longrightarrow> videoRef s = Some video \<Longrightarrow> canvasRef s = Some cv \<Longrightarrow>
   has_ctx cv \<Longrightarrow> paused video \<Longrightarrow> emptyOrThrows (Returns r) \<Longrightarrow>
   detectAndDraw (Returns r) s =
     s\<lparr>canvasRef := Some (cv\<lparr>cv_width := rectWidth video, cv_height := rectHeight video,
                              content := []\<rparr>),
       currentKeypoints := None\<rparr>"
  by (auto simp add: detectAndDraw_def tryBlock_def emptyOrThrows_def Let_def
        split: option.splits list.splits)

lemma detectAndDraw_hover_throws:
  "detector s \<Longrightarrow> isVideoReady s \<Longrightarrow> videoRef s = Some video \<Longrightarrow> canvasRef s = Some cv \<Longrightarrow>
   has_ctx cv \<Longrightarrow> videoWidth video \<noteq> 0 \<Longrightarrow> videoHeight video \<noteq> 0 \<Longrightarrow>
   detectAndDraw_hover (Throws e) s =
     s\<lparr>canvasRef := Some (cv\<lparr>cv_width := rectWidth video, cv_height := rectHeight video,
                              content := []\<rparr>),
       console := console s @ [''Error in pose detection:'']
                    @ (if e = ErrorObject then [''Error details:''] else [])\<rparr>"
  by (simp add: detectAndDraw_hover_def tryBlock_hover_def Let_def)

lemma detectAndDraw_hover_empty:
  "detector s \<Longrightarrow> isVideoReady s \<Longrightarrow> videoRef s = Some video \<Longrightarrow> canvasRef s = Some cv \<Longrightarrow>
   has_ctx cv \<Longrightarrow> videoWidth video \<noteq> 0 \<Longrightarrow> videoHeight video \<noteq> 0 \<Longrightarrow>
   emptyOrThrows (Returns r) \<Longrightarrow>
   detectAndDraw_hover (Returns r) s =
     s\<lparr>canvasRef := Some (cv\<lparr>cv_width := rectWidth video, cv_height := rectHeight video,
                              content := []\<rparr>),
       console := console s @ [''No valid poses detected'']\<rparr>"
  by (auto simp add: detectAndDraw_hover_def tryBlock_hover_def emptyOrThrows_def Let_def
        split: option.splits list.splits)

text \<open>
  Claim C3, as stated, has a cycle whose estimation fails leave the drawn overlay as it
  was. Both variants clear the canvas before they call the estimator: with a marker on
  the canvas, a cycle whose estimator throws, or returns no pose, leaves the canvas
  blank.
\<close>

theorem failed_detection_counterexample:
  "overlay demo_drawn = [demo_marker]
   \<and> overlay (detectAndDraw (Throws ErrorObject) demo_drawn) = []
   \<and> overlay (detectAndDraw (Returns (Some [])) demo_drawn) = []
   \<and> overlay (detectAndDraw_hover (Throws ErrorObject) demo_drawn) = []
   \<and> overlay (detectAndDraw_hover (Returns (Some [])) demo_drawn) = []"
  by (simp add: demo_drawn_def demo_paused_def demo_state_def demo_video_def demo_canvas_def
        detectAndDraw_def detectAndDraw_hover_def tryBlock_def tryBlock_hover_def overlay_def)

text \<open>
  Claim C3, amended: in a detection cycle that reaches the estimator (detector, video
  and canvas ready; the video paused in the click variant, of nonzero native size in
  the hover variant) and in which the estimator throws or returns an empty result (no
  poses, or a first pose without keypoints), nothing is drawn: the canvas, cleared at
  the start of the cycle, is left blank. A thrown error leaves the \<open>try\<close> block and is
  caught by the cycle, which logs it (one line; the hover variant adds a line of
  details for an \<open>Error\<close> object) and changes nothing else. An empty result is logged
  by the hover variant only; the click variant resets the current keypoints.
  Detector, video and canvas stay as ready as they were, so the loop continues.
\<close>

theorem failed_detection_blank:
  assumes "detector s" and "isVideoReady s" and "videoRef s = Some video"
    and "canvasRef s = Some cv" and "has_ctx cv" and "emptyOrThrows est"
  shows "(paused video \<longrightarrow> overlay (detectAndDraw est s) = [])
       \<and> (videoWidth video \<noteq> 0 \<and> videoHeight video \<noteq> 0
            \<longrightarrow> overlay (detectAndDraw_hover est s) = [])
       \<and> detector (detectAndDraw est s) \<and> isVideoReady (detectAndDraw est s)
       \<and> videoRef (detectAndDraw est s) = Some video
       \<and> canvasRef (detectAndDraw est s) \<noteq> None
       \<and> detector (detectAndDraw_hover est s) \<and> isVideoReady (detectAndDraw_hover est s)
       \<and> videoRef (detectAndDraw_hover est s) = Some video
       \<and> canvasRef (detectAndDraw_hover est s) \<noteq> None
       \<and> tryBlock (Throws e) s c = Inl (e, s\<lparr>canvasRef := Some c\<rparr>)
       \<and> tryBlock_hover (Throws e) s video cv
           = Inl (e, s\<lparr>canvasRef := Some (cv\<lparr>cv_width := rectWidth video,
                                          cv_height := rectHeight video, content := []\<rparr>)\<rparr>)
       \<and> (paused video \<and> est = Throws e
            \<longrightarrow> detectAndDraw est s =
                  s\<lparr>canvasRef := Some (cv\<lparr>cv_width := rectWidth video,
                                          cv_height := rectHeight video, content := []\<rparr>),
                    console := console s @ [''Error in pose detection:'']\<rparr>)
       \<and> (paused video \<and> est = Returns r
            \<longrightarrow> detectAndDraw est s =
                  s\<lparr>canvasRef := Some (cv\<lparr>cv_width := rectWidth video,
                                          cv_height := rectHeight video, content := []\<rparr>),
                    currentKeypoints := None\<rparr>)
       \<and> (videoWidth video \<noteq> 0 \<and> videoHeight video \<noteq> 0 \<and> est = Throws e
            \<longrightarrow> detectAndDraw_hover est s =
                  s\<lparr>canvasRef := Some (cv\<lparr>cv_width := rectWidth video,
                                          cv_height := rectHeight video, content := []\<rparr>),
                    console := console s @ [''Error in pose detection:'']
                                 @ (if e = ErrorObject then [''Error details:''] else [])\<rparr>)
       \<and> (videoWidth video \<noteq> 0 \<and> videoHeight video \<noteq> 0 \<and> est = Returns r
            \<longrightarrow> detectAndDraw_hover est s =
                  s\<lparr>canvasRef := Some (cv\<lparr>cv_width := rectWidth video,
                                          cv_height := rectHeight video, content := []\<rparr>),
                    console := console s @ [''No valid poses detected'']\<rparr>)"
proof -
  have tb: "tryBlock (Throws e) s c = Inl (e, s\<lparr>canvasRef := Some c\<rparr>)"
    by (simp add: tryBlock_def)
  have tbh: "tryBlock_hover (Throws e) s video cv
      = Inl (e, s\<lparr>canvasRef := Some (cv\<lparr>cv_width := rectWidth video,
                                     cv_height := rectHeight video, content := []\<rparr>)\<rparr>)"
    using assms(5) by (simp add: tryBlock_hover_def Let_def)
  have old: "(paused video \<longrightarrow> overlay (detectAndDraw est s) = [])
       \<and> (videoWidth video \<noteq> 0 \<and> videoHeight video \<noteq> 0
            \<longrightarrow> overlay (detectAndDraw_hover est s) = [])
       \<and> detector (detectAndDraw est s) \<and> isVideoReady (detectAndDraw est s)
       \<and> videoRef (detectAndDraw est s) = Some video
       \<and> canvasRef (detectAndDraw est s) \<noteq> None
       \<and> detector (detectAndDraw_hover est s) \<and> isVideoReady (detectAndDraw_hover est s)
       \<and> videoRef (detectAndDraw_hover est s) = Some video
       \<and> canvasRef (detectAndDraw_hover est s) \<noteq> None"
    using assms detectAndDraw_failure [of s video cv est]
      detectAndDraw_hover_failure [of s video cv est]
      detectAndDraw_keeps [of est s] detectAndDraw_hover_keeps [of est s]
    by simp
  have t1: "paused video \<and> est = Throws e
            \<longrightarrow> detectAndDraw est s =
                  s\<lparr>canvasRef := Some (cv\<lparr>cv_width := rectWidth video,
                                          cv_height := rectHeight video, content := []\<rparr>),
                    console := console s @ [''Error in pose detection:'']\<rparr>"
    using assms detectAndDraw_throws [of s video cv e] by blast
  have t2: "paused video \<and> est = Returns r
            \<longrightarrow> detectAndDraw est s =
                  s\<lparr>canvasRef := Some (cv\<lparr>cv_width := rectWidth video,
                                          cv_height := rectHeight video, content := []\<rparr>),
                    currentKeypoints := None\<rparr>"
    using assms detectAndDraw_empty [of s video cv r] by blast
  have t3: "videoWidth video \<noteq> 0 \<and> videoHeight video \<noteq> 0 \<and> est = Throws e
            \<longrightarrow> detectAndDraw_hover est s =
                  s\<lparr>canvasRef := Some (cv\<lparr>cv_width := rectWidth video,
                                          cv_height := rectHeight video, content := []\<rparr>),
                    console := console s @ [''Error in pose detection:'']
                                 @ (if e = ErrorObject then [''Error details:''] else [])\<rparr>"
    using assms detectAndDraw_hover_throws [of s video cv e] by blast
  have t4: "videoWidth video \<noteq> 0 \<and> videoHeight video \<noteq> 0 \<and> est = Returns r
            \<longrightarrow> detectAndDraw_hover est s =
                  s\<lparr>canvasRef := Some (cv\<lparr>cv_width := rectWidth video,
                                          cv_height := rectHeight video, content := []\<rparr>),
                    console := console s @ [''No valid poses detected'']\<rparr>"
    using assms detectAndDraw_hover_empty [of s video cv r] by blast
  show ?thesis
    using old tb tbh t1 t2 t3 t4 by blast
qed

theorem failed_detection_blank_witness:
  "detector demo_drawn \<and> isVideoReady demo_drawn
   \<and> videoRef demo_drawn = Some (demo_video\<lparr>paused := True\<rparr>)
   \<and> canvasRef demo_drawn = Some (demo_canvas\<lparr>content := [demo_marker]\<rparr>)
   \<and> has_ctx (demo_canvas\<lparr>content := [demo_marker]\<rparr>)
   \<and> emptyOrThrows (Throws ErrorObject)
   \<and> emptyOrThrows (Returns (Some [Some \<lparr>keypoints = None, pose_score = Some 0.9\<rparr>]))
   \<and> paused (demo_video\<lparr>paused := True\<rparr>)
   \<and> videoWidth (demo_video\<lparr>paused := True\<rparr>) \<noteq> 0
   \<and> videoHeight (demo_video\<lparr>paused := True\<rparr>) \<noteq> 0
   \<and> overlay (detectAndDraw (Throws ErrorObject) demo_drawn) = []
   \<and> overlay (detectAndDraw_hover (Throws ErrorObject) demo_drawn) = []
   \<and> overlay (detectAndDraw
        (Returns (Some [Some \<lparr>keypoints = None, pose_score = Some 0.9\<rparr>])) demo_drawn) = []
   \<and> overlay (detectAndDraw_hover
        (Returns (Some [Some \<lparr>keypoints = None, pose_score = Some 0.9\<rparr>])) demo_drawn) = []
   \<and> console (detectAndDraw (Throws ErrorObject) demo_drawn) = [''Error in pose detection:'']
   \<and> console (detectAndDraw_hover (Throws ErrorObject) demo_drawn)
       = [''Error in pose detection:'', ''Error details:'']
   \<and> console (detectAndDraw_hover (Throws OtherValue) demo_drawn)
       = [''Error in pose detection:'']
   \<and> console (detectAndDraw
        (Returns (Some [Some \<lparr>keypoints = None, pose_score = Some 0.9\<rparr>])) demo_drawn) = []
   \<and> console (detectAndDraw_hover
        (Returns (Some [Some \<lparr>keypoints = None, pose_score = Some 0.9\<rparr>])) demo_drawn)
       = [''No valid poses detected'']"
proof -
  let ?r = "Some [Some \<lparr>keypoints = None, pose_score = Some 0.9\<rparr>]"
  have a: "detector demo_drawn" "isVideoReady demo_drawn"
      "videoRef demo_drawn = Some (demo_video\<lparr>paused := True\<rparr>)"
      "canvasRef demo_drawn = Some (demo_canvas\<lparr>content := [demo_marker]\<rparr>)"
      "has_ctx (demo_canvas\<lparr>content := [demo_marker]\<rparr>)"
    by (simp_all add: demo_drawn_def demo_paused_def demo_state_def demo_canvas_def)
  have e: "emptyOrThrows (Throws ErrorObject)" "emptyOrThrows (Returns ?r)"
      "emptyOrThrows (Throws OtherValue)"
    by (simp_all add: emptyOrThrows_def)
  have v: "paused (demo_video\<lparr>paused := True\<rparr>)"
      "videoWidth (demo_video\<lparr>paused := True\<rparr>) \<noteq> 0"
      "videoHeight (demo_video\<lparr>paused := True\<rparr>) \<noteq> 0"
    by (simp_all add: demo_video_def)
  have c: "console demo_drawn = []"
    by (simp add: demo_drawn_def demo_paused_def demo_state_def)
  note A = failed_detection_blank [OF a e(1), where e = ErrorObject]
  note B = failed_detection_blank [OF a e(2), where r = ?r]
  note C = failed_detection_blank [OF a e(3), where e = OtherValue]
  have r1: "overlay (detectAndDraw (Throws ErrorObject) demo_drawn) = []"
      "overlay (detectAndDraw_hover (Throws ErrorObject) demo_drawn) = []"
      "console (detectAndDraw (Throws ErrorObject) demo_drawn) = [''Error in pose detection:'']"
      "console (detectAndDraw_hover (Throws ErrorObject) demo_drawn)
         = [''Error in pose detection:'', ''Error details:'']"
    using A v c by simp_all
  have r2: "overlay (detectAndDraw (Returns ?r) demo_drawn) = []"
      "overlay (detectAndDraw_hover (Returns ?r) demo_drawn) = []"
      "console (detectAndDraw (Returns ?r) demo_drawn) = []"
      "console (detectAndDraw_hover (Returns ?r) demo_drawn) = [''No valid poses detected'']"
    using B v c by simp_all
  have r3: "console (detectAndDraw_hover (Throws OtherValue) demo_drawn)
         = [''Error in pose detection:'']"
    using C v c by simp
  show ?thesis
    using a e v r1 r2 r3 by blast
qed

section \<open>The detection cycle: drawing order and dimming\<close>

lemma drawBone_dimming: "list_ex is_dimming (drawBone vref m ctx c) = list_ex is_dimming ctx"
  by (simp add: drawBone_def split: option.splits prod.splits)

lemma foldl_drawBone_dimming:
  "list_ex is_dimming (foldl (drawBone vref m) ctx cs) = list_ex is_dimming ctx"
  by (induction cs arbitrary: ctx) (simp_all add: drawBone_dimming)

lemma drawSkeleton_dimming: "list_ex is_dimming (drawSkeleton vref ctx kps) = list_ex is_dimming ctx"
  by (simp add: drawSkeleton_def foldl_drawBone_dimming)

lemma drawSkeleton_hover_dimming:
  "list_ex is_dimming (drawSkeleton_hover vref ctx kps) = list_ex is_dimming ctx"
  by (simp add: drawSkeleton_hover_def drawSkeleton_dimming)

lemma drawKeypoint_hover_dimming:
  "list_ex is_dimming (drawKeypoint_hover s m ctx k) = list_ex is_dimming ctx"
  by (simp add: drawKeypoint_hover_def Let_def)

lemma foldl_drawKeypoint_hover_dimming:
  "list_ex is_dimming (foldl (drawKeypoint_hover s m) ctx ks) = list_ex is_dimming ctx"
  by (induction ks arbitrary: ctx) (simp_all add: drawKeypoint_hover_dimming)

lemma applyDimmingEffect_hover_dimming:
  "list_ex is_dimming (applyDimmingEffect_hover vref w h ctx bb)"
  by (simp add: applyDimmingEffect_hover_def Let_def)

lemma calculateBoundingBox_Nil [simp]: "calculateBoundingBox [] = None"
  by (simp add: calculateBoundingBox_def)

lemma drawPose_hover_dimming:
  "keypoints pose = Some kps \<Longrightarrow>
   list_ex is_dimming (drawPose_hover s ctx (Some pose)) \<longleftrightarrow>
     list_ex is_dimming ctx \<or>
     (showDimming s \<and> poseAccepted pose
      \<and> (\<exists>bb. calculateBoundingBox kps = Some bb \<and> 0 < bb_width bb \<and> 0 < bb_height bb))"
  by (cases "kps = []")
     (auto simp add: drawPose_hover_def poseAccepted_def Let_def
        foldl_drawKeypoint_hover_dimming drawSkeleton_hover_dimming
        applyDimmingEffect_hover_dimming split: option.splits)

lemma detectAndDraw_hover_single:
  "detector s \<Longrightarrow> isVideoReady s \<Longrightarrow> videoRef s = Some video \<Longrightarrow> canvasRef s = Some cv \<Longrightarrow>
   has_ctx cv \<Longrightarrow> videoWidth video \<noteq> 0 \<Longrightarrow> videoHeight video \<noteq> 0 \<Longrightarrow>
   keypoints pose = Some kps \<Longrightarrow>
   overlay (detectAndDraw_hover (Returns (Some [Some pose])) s) = drawPose_hover s [] (Some pose)"
  by (simp add: detectAndDraw_hover_def tryBlock_hover_def Let_def)

lemma bbox_one:
  "length (filter confident kps) = 1 \<Longrightarrow> calculateBoundingBox kps = Some bb \<Longrightarrow> bb_width bb = 0"
proof -
  assume a: "length (filter confident kps) = 1" and b: "calculateBoundingBox kps = Some bb"
  from a obtain k where "filter confident kps = [k]"
    by (cases "filter confident kps") auto
  with b show ?thesis
    by (auto simp add: calculateBoundingBox_def Math_min_def Math_max_def Let_def)
qed

lemma bbox_same_x:
  assumes "\<forall>k\<in>set kps. confident k \<longrightarrow> kp_x k = c" and "calculateBoundingBox kps = Some bb"
  shows "bb_width bb = 0"
proof -
  let ?v = "filter confident kps"
  from assms(2) have ne: "?v \<noteq> []"
    by (auto simp add: calculateBoundingBox_def Let_def split: if_splits)
  from assms(1) have "set (map kp_x ?v) \<subseteq> {c}" by auto
  moreover from ne have "set (map kp_x ?v) \<noteq> {}" by (auto simp add: filter_empty_conv)
  ultimately have "set (map kp_x ?v) = {c}" by (metis subset_singletonD)
  with assms(2) ne show ?thesis
    by (auto simp add: calculateBoundingBox_def Math_min_def Math_max_def Let_def)
qed

lemma bbox_same_y:
  assumes "\<forall>k\<in>set kps. confident k \<longrightarrow> kp_y k = c" and "calculateBoundingBox kps = Some bb"
  shows "bb_height bb = 0"
proof -
  let ?v = "filter confident kps"
  from assms(2) have ne: "?v \<noteq> []"
    by (auto simp add: calculateBoundingBox_def Let_def split: if_splits)
  from assms(1) have "set (map kp_y ?v) \<subseteq> {c}" by auto
  moreover from ne have "set (map kp_y ?v) \<noteq> {}" by (auto simp add: filter_empty_conv)
  ultimately have "set (map kp_y ?v) = {c}" by (metis subset_singletonD)
  with assms(2) ne show ?thesis
    by (auto simp add: calculateBoundingBox_def Math_min_def Math_max_def Let_def)
qed

text \<open>
  The click variant draws in the order of claim C7: the dimming layer and its hole, then
  the skeleton segments, then the markers; it draws no tooltip on the canvas.
\<close>

lemma detectAndDraw_draw_order:
  assumes "detector s" and "isVideoReady s" and "videoRef s = Some video"
    and "canvasRef s = Some cv" and "has_ctx cv" and "paused video"
    and "keypoints pose = Some kps"
  shows "overlay (detectAndDraw (Returns (Some (Some pose # rest))) s)
       = (if showDimming s
          then applyDimmingEffect (videoRef s) (dim_width s) (dim_height s) [] kps else [])
         @ drawSkeleton (videoRef s) [] kps
         @ map (markerOf (videoRef s)) (filter aboveThreshold kps)"
  using assms
    drawSkeleton_append [of "videoRef s"
      "applyDimmingEffect (videoRef s) (dim_width s) (dim_height s) [] kps" kps]
  by (simp add: detectAndDraw_def tryBlock_def Let_def drawMarker_filter)

text \<open>
  Claim C7 (dimming first, then skeleton, then markers, then the tooltip) fails in the
  hover variant, which draws the skeleton, then each marker followed at once by its
  tooltip, and the dimming layer and its hole last. For a paused video with dimming on,
  the mouse over the first joint, and a pose of two confident keypoints, the canvas
  holds, in drawing order: the segment, the first marker, its tooltip, the second
  marker, the dimming layer, the hole.
\<close>

theorem hover_cycle_dims_last:
  "overlay (detectAndDraw_hover (Returns (Some [Some demo_arm])) demo_hover)
     = [BoneLine \<lparr>mx = Some 100, my = Some 100\<rparr> \<lparr>mx = Some 200, my = Some 200\<rparr>,
        JointMarker \<lparr>mx = Some 100, my = Some 100\<rparr> ''#00FF00'',
        TooltipBox \<lparr>mx = Some 100, my = Some 100\<rparr> ''left_shoulder'' None,
        JointMarker \<lparr>mx = Some 200, my = Some 200\<rparr> ''#0000FF'',
        DimLayer 640 360,
        SpotlightHole (Some 50) (Some 50) (Some 200) (Some 200)]"
  by (simp add: detectAndDraw_hover_def tryBlock_hover_def demo_hover_def demo_paused_def demo_state_def demo_video_def
     demo_canvas_def demo_arm_def demo_kp_def overlay_def drawPose_hover_def truthy_def score_lt_def
     score_gt_def buildKeypointMap_def addKeypoint_def drawSkeleton_hover_def drawSkeleton_def connections_def
     drawBone_def video_paused_def mapToDisplaySpace_def js_div_def js_mul_def drawKeypoint_hover_def
     getJointColor_def str_includes_def sublist_Cons_right distanceTo_def js_lt_def sqrt_lt_15
     calculateJointAngle_def calculateBoundingBox_def confident_def Math_min_def Math_max_def
     applyDimmingEffect_hover_def js_sub_def js_add_def Let_def)

theorem hover_cycle_dims_last_witness:
  "detector demo_hover \<and> isVideoReady demo_hover \<and> showDimming demo_hover
   \<and> video_paused (videoRef demo_hover)
   \<and> length (overlay (detectAndDraw_hover (Returns (Some [Some demo_arm])) demo_hover)) = 6
   \<and> is_bone (overlay (detectAndDraw_hover (Returns (Some [Some demo_arm])) demo_hover) ! 0)
   \<and> is_marker (overlay (detectAndDraw_hover (Returns (Some [Some demo_arm])) demo_hover) ! 1)
   \<and> is_tooltip (overlay (detectAndDraw_hover (Returns (Some [Some demo_arm])) demo_hover) ! 2)
   \<and> is_marker (overlay (detectAndDraw_hover (Returns (Some [Some demo_arm])) demo_hover) ! 3)
   \<and> is_dimming (overlay (detectAndDraw_hover (Returns (Some [Some demo_arm])) demo_hover) ! 4)
   \<and> is_dimming (overlay (detectAndDraw_hover (Returns (Some [Some demo_arm])) demo_hover) ! 5)"
proof -
  have st: "detector demo_hover" "isVideoReady demo_hover" "showDimming demo_hover"
      "video_paused (videoRef demo_hover)"
    by (simp_all add: demo_hover_def demo_paused_def demo_state_def video_paused_def)
  show ?thesis
    using st by (simp add: hover_cycle_dims_last)
qed

text \<open>
  Claim C10: in a cycle of the hover variant that draws (detector, video and canvas
  ready, nonzero native size) with one pose, dimming is applied exactly when dimming is
  on, the pose is accepted and the bounding box over the confident keypoints exists
  with positive width and positive height. A pose with exactly one confident keypoint,
  or whose confident keypoints all share one x or one y coordinate, gets no dimming.
\<close>

theorem hover_dimming_needs_area:
  assumes "detector s" and "isVideoReady s" and "videoRef s = Some video"
    and "canvasRef s = Some cv" and "has_ctx cv"
    and "videoWidth video \<noteq> 0" and "videoHeight video \<noteq> 0"
    and "keypoints pose = Some kps"
  shows "(dimmingApplied (detectAndDraw_hover (Returns (Some [Some pose])) s) \<longleftrightarrow>
            showDimming s \<and> poseAccepted pose
            \<and> (\<exists>bb. calculateBoundingBox kps = Some bb \<and> 0 < bb_width bb \<and> 0 < bb_height bb))
       \<and> (length (filter confident kps) = 1
            \<longrightarrow> \<not> dimmingApplied (detectAndDraw_hover (Returns (Some [Some pose])) s))
       \<and> ((\<forall>k\<in>set kps. confident k \<longrightarrow> kp_x k = c)
            \<longrightarrow> \<not> dimmingApplied (detectAndDraw_hover (Returns (Some [Some pose])) s))
       \<and> ((\<forall>k\<in>set kps. confident k \<longrightarrow> kp_y k = c)
            \<longrightarrow> \<not> dimmingApplied (detectAndDraw_hover (Returns (Some [Some pose])) s))"
proof -
  let ?s' = "detectAndDraw_hover (Returns (Some [Some pose])) s"
  have iff: "dimmingApplied ?s' \<longleftrightarrow>
      showDimming s \<and> poseAccepted pose
      \<and> (\<exists>bb. calculateBoundingBox kps = Some bb \<and> 0 < bb_width bb \<and> 0 < bb_height bb)"
    using detectAndDraw_hover_single [OF assms] drawPose_hover_dimming [OF assms(8), of s "[]"]
    by (simp add: dimmingApplied_def)
  have one: "\<not> dimmingApplied ?s'" if "length (filter confident kps) = 1"
    using iff bbox_one [OF that] by auto
  have sx: "\<not> dimmingApplied ?s'" if "\<forall>k\<in>set kps. confident k \<longrightarrow> kp_x k = c"
    using iff bbox_same_x [OF that] by auto
  have sy: "\<not> dimmingApplied ?s'" if "\<forall>k\<in>set kps. confident k \<longrightarrow> kp_y k = c"
    using iff bbox_same_y [OF that] by auto
  show ?thesis using iff one sx sy by blast
qed

theorem hover_dimming_needs_area_witness:
  "detector demo_hover \<and> isVideoReady demo_hover \<and> showDimming demo_hover
   \<and> videoRef demo_hover = Some (demo_video\<lparr>paused := True\<rparr>)
   \<and> canvasRef demo_hover = Some demo_canvas \<and> has_ctx demo_canvas
   \<and> videoWidth (demo_video\<lparr>paused := True\<rparr>) \<noteq> 0
   \<and> videoHeight (demo_video\<lparr>paused := True\<rparr>) \<noteq> 0
   \<and> length (filter confident [demo_kp ''left_knee'' 960 600 0.5,
         demo_kp ''nose'' 100 100 0.29]) = 1
   \<and> \<not> dimmingApplied (detectAndDraw_hover (Returns (Some [Some demo_single])) demo_hover)
   \<and> map kp_x (filter confident [demo_kp ''left_hip'' 960 300 0.9,
         demo_kp ''left_knee'' 960 600 0.9]) = [960, 960]
   \<and> \<not> dimmingApplied (detectAndDraw_hover (Returns (Some [Some demo_column])) demo_hover)
   \<and> calculateBoundingBox [demo_kp ''left_shoulder'' 300 300 0.9,
         demo_kp ''left_elbow'' 600 600 0.9]
       = Some \<lparr>bb_x = 300, bb_y = 300, bb_width = 300, bb_height = 300\<rparr>
   \<and> dimmingApplied (detectAndDraw_hover (Returns (Some [Some demo_arm])) demo_hover)"
proof -
  let ?v = "demo_video\<lparr>paused := True\<rparr>"
  have st: "detector demo_hover" "isVideoReady demo_hover" "videoRef demo_hover = Some ?v"
      "canvasRef demo_hover = Some demo_canvas" "has_ctx demo_canvas"
      "videoWidth ?v \<noteq> 0" "videoHeight ?v \<noteq> 0"
    by (simp_all add: demo_hover_def demo_paused_def demo_state_def demo_canvas_def
          demo_video_def)
  have sd: "showDimming demo_hover"
    by (simp add: demo_hover_def demo_paused_def demo_state_def)
  have k1: "keypoints demo_single
      = Some [demo_kp ''left_knee'' 960 600 0.5, demo_kp ''nose'' 100 100 0.29]"
    by (simp add: demo_single_def)
  have k2: "keypoints demo_column
      = Some [demo_kp ''left_hip'' 960 300 0.9, demo_kp ''left_knee'' 960 600 0.9]"
    by (simp add: demo_column_def)
  have k3: "keypoints demo_arm
      = Some [demo_kp ''left_shoulder'' 300 300 0.9, demo_kp ''left_elbow'' 600 600 0.9]"
    by (simp add: demo_arm_def)
  have one: "length (filter confident [demo_kp ''left_knee'' 960 600 0.5,
         demo_kp ''nose'' 100 100 0.29]) = 1"
    by (simp add: confident_def truthy_def score_gt_def demo_kp_def)
  have col: "filter confident [demo_kp ''left_hip'' 960 300 0.9,
         demo_kp ''left_knee'' 960 600 0.9]
       = [demo_kp ''left_hip'' 960 300 0.9, demo_kp ''left_knee'' 960 600 0.9]"
    by (simp add: confident_def truthy_def score_gt_def demo_kp_def)
  have colm: "map kp_x (filter confident [demo_kp ''left_hip'' 960 300 0.9,
         demo_kp ''left_knee'' 960 600 0.9]) = [960, 960]"
    by (simp add: confident_def truthy_def score_gt_def demo_kp_def)
  have colx: "\<forall>k\<in>set [demo_kp ''left_hip'' 960 300 0.9, demo_kp ''left_knee'' 960 600 0.9].
      confident k \<longrightarrow> kp_x k = 960"
    by (simp add: demo_kp_def)
  have bb: "calculateBoundingBox [demo_kp ''left_shoulder'' 300 300 0.9,
         demo_kp ''left_elbow'' 600 600 0.9]
       = Some \<lparr>bb_x = 300, bb_y = 300, bb_width = 300, bb_height = 300\<rparr>"
    by (simp add: calculateBoundingBox_def confident_def truthy_def score_gt_def demo_kp_def
          Math_min_def Math_max_def)
  have acc: "poseAccepted demo_arm"
    by (simp add: poseAccepted_def demo_arm_def truthy_def score_lt_def)
  note A = hover_dimming_needs_area [OF st k1, where c = 0]
  note B = hover_dimming_needs_area [OF st k2, where c = 960]
  note C = hover_dimming_needs_area [OF st k3, where c = 0]
  have r1: "\<not> dimmingApplied (detectAndDraw_hover (Returns (Some [Some demo_single])) demo_hover)"
    using A one by blast
  have r2: "\<not> dimmingApplied (detectAndDraw_hover (Returns (Some [Some demo_column])) demo_hover)"
    using B colx by blast
  have r3: "dimmingApplied (detectAndDraw_hover (Returns (Some [Some demo_arm])) demo_hover)"
    using C sd acc bb by simp
  show ?thesis
    using st sd one colm bb r1 r2 r3 by blast
qed

end
